theory Spec2Isabelle
  imports Main "HOL-Library.Word" "HOL-Library.Multiset"
begin

unbundle bit_operations_syntax

section \<open>Machine values\<close>

text \<open>
  The dynamic navigation mesh of \<^verbatim>\<open>navigation/dynamic_navigation_mesh.cpp\<close> is embedded
  shallowly. A C++ \<^verbatim>\<open>unsigned\<close> is a \<open>32 word\<close>, a \<^verbatim>\<open>size_t\<close> a \<open>64 word\<close>. A \<^verbatim>\<open>float\<close> is
  carried as its 32-bit pattern: the code copies, stores and serialises floats, and every
  float computation is a function of the environment record \<open>Detour\<close> below. A C++
  \<^verbatim>\<open>int\<close> is a HOL \<open>int\<close>; \<open>int32\<close> wraps a computed value into the 32-bit range. Member
  names lose their trailing underscore (\<^verbatim>\<open>node_\<close> is \<open>node\<close>).
\<close>

type_synonym byte = "8 word"
type_synonym uint32 = "32 word"
type_synonym float = "32 word"
type_synonym Vector3 = "float \<times> float \<times> float"

definition int32 :: "int \<Rightarrow> int" where
  "int32 v = sint (word_of_int v :: 32 word)"

definition cdiv :: "int \<Rightarrow> int \<Rightarrow> int" where
  \<comment> \<open>C++ integer division truncates towards zero.\<close>
  "cdiv a b = sgn a * sgn b * (\<bar>a\<bar> div \<bar>b\<bar>)"

definition le32 :: "32 word \<Rightarrow> byte list" where
  \<comment> \<open>The four bytes of a 32-bit value in memory order (little endian host).\<close>
  "le32 w = [ucast w, ucast (drop_bit 8 w), ucast (drop_bit 16 w), ucast (drop_bit 24 w)]"

definition rd32 :: "byte list \<Rightarrow> 32 word" where
  \<comment> \<open>Reads four bytes. Bytes missing at the end of a stream are indeterminate in the
      source (the read is short and the rest of the variable is not written); the model
      reads them as 0.\<close>
  "rd32 bs = (case take 4 (bs @ replicate 4 0) of
      [b0, b1, b2, b3] \<Rightarrow>
        ucast b0 OR push_bit 8 (ucast b1) OR push_bit 16 (ucast b2) OR push_bit 24 (ucast b3)
    | _ \<Rightarrow> 0)"

definition le16 :: "16 word \<Rightarrow> byte list" where
  "le16 w = [ucast w, ucast (drop_bit 8 w)]"

definition put32s :: "32 word list \<Rightarrow> byte list" where
  "put32s ws = concat (map le32 ws)"

fun get32s :: "nat \<Rightarrow> byte list \<Rightarrow> 32 word list" where
  "get32s 0 bs = []"
| "get32s (Suc n) bs = rd32 bs # get32s n (drop 4 bs)"

definition float_zero :: float where
  "float_zero = 0"

definition float_one :: float where
  \<comment> \<open>The bit pattern of 1.0f.\<close>
  "float_one = 0x3F800000"

section \<open>LinearAllocator\<close>

text \<open>
  \<^verbatim>\<open>struct LinearAllocator\<close>: \<open>buffer\<close> records whether the pointer is non-null; \<open>capacity\<close>,
  \<open>top\<close> and \<open>high\<close> are C++ ints, kept as 32-bit words and read with \<open>sint\<close>. The field
  \<^verbatim>\<open>top\<close> is named \<open>top_a\<close> here. The pointer \<^verbatim>\<open>&buffer[top]\<close> that \<^verbatim>\<open>alloc\<close> returns is the
  offset \<open>top\<close>; \<open>None\<close> is \<^verbatim>\<open>nullptr\<close>.
\<close>

record LinearAllocator =
  buffer :: bool
  capacity :: "32 word"
  top_a :: "32 word"
  high :: "32 word"

definition resize :: "bool \<Rightarrow> LinearAllocator \<Rightarrow> 32 word \<Rightarrow> LinearAllocator" where
  \<comment> \<open>\<open>ok\<close>: whether \<^verbatim>\<open>dtAlloc(cap, DT_ALLOC_PERM)\<close> returned memory.\<close>
  "resize ok la cap = la\<lparr>buffer := ok, capacity := cap\<rparr>"

definition LinearAllocator_new :: "bool \<Rightarrow> 32 word \<Rightarrow> LinearAllocator" where
  "LinearAllocator_new ok cap =
     resize ok \<lparr>buffer = False, capacity = 0, top_a = 0, high = 0\<rparr> cap"

definition reset :: "LinearAllocator \<Rightarrow> LinearAllocator" where
  "reset la = la\<lparr>high := (if sint (high la) < sint (top_a la) then top_a la else high la),
                 top_a := 0\<rparr>"

definition alloc :: "LinearAllocator \<Rightarrow> 64 word \<Rightarrow> 32 word option \<times> LinearAllocator" where
  \<comment> \<open>\<^verbatim>\<open>top + size > capacity\<close> is computed in \<^verbatim>\<open>size_t\<close>: both ints are converted (sign
      extended) to 64 bits, the sum wraps, the comparison is unsigned. \<^verbatim>\<open>top += size\<close>
      narrows the 64-bit sum back to an int.\<close>
  "alloc la sz =
     (if \<not> buffer la then (None, la)
      else if (scast (capacity la) :: 64 word) < scast (top_a la) + sz then (None, la)
      else (Some (top_a la), la\<lparr>top_a := ucast (scast (top_a la) + sz :: 64 word)\<rparr>))"

definition free :: "LinearAllocator \<Rightarrow> 32 word option \<Rightarrow> LinearAllocator" where
  "free la p = la"

definition la_inv :: "LinearAllocator \<Rightarrow> bool" where
  \<comment> \<open>The invariant \<open>0 \<le> top \<le> capacity\<close>.\<close>
  "la_inv la = (0 \<le> sint (top_a la) \<and> sint (top_a la) \<le> sint (capacity la))"

section \<open>Integer helpers of the math library\<close>

function npot :: "nat \<Rightarrow> nat \<Rightarrow> nat" where
  "npot p v = (if v \<le> p \<or> p = 0 then p else npot (2 * p) v)"
  by pat_completeness auto
termination
  by (relation "measure (\<lambda>(p, v). v - p)") auto

definition NextPowerOfTwo :: "uint32 \<Rightarrow> uint32" where
  \<comment> \<open>Modelled from the spec: \<^verbatim>\<open>NextPowerOfTwo\<close> is declared in the math library, which is
      not among the sources. The spec: it rounds its argument up to the next power of two.
      The model takes the least power of two that is not below the argument, as an
      unsigned 32-bit value (so an argument above \<open>2^31\<close> gives 0). The spec does not say
      what rounding 0 gives; no theorem below uses that value.\<close>
  "NextPowerOfTwo v = word_of_nat (npot 1 (unat v))"

fun ilog2 :: "nat \<Rightarrow> nat" where
  "ilog2 n = (if n < 2 then 0 else Suc (ilog2 (n div 2)))"

definition LogBaseTwo :: "uint32 \<Rightarrow> uint32" where
  \<comment> \<open>Modelled from the spec: \<^verbatim>\<open>LogBaseTwo\<close> is declared in the math library, which is not
      among the sources. The spec writes \<open>log2(maxTiles)\<close>; the model is the integer
      logarithm (the position of the highest set bit, 0 for 0).\<close>
  "LogBaseTwo v = word_of_nat (ilog2 (unat v))"

datatype fault =
  NullPointer | UndefinedShift | DivisionByZero | SignedOverflow | AssertionFailed | BufferOverrun

definition shl1 :: "uint32 \<Rightarrow> uint32 option" where
  \<comment> \<open>\<^verbatim>\<open>1u << n\<close>: undefined in C++ when \<open>n\<close> is 32 or more.\<close>
  "shl1 n = (if unat n < 32 then Some (push_bit (unat n) 1) else None)"

section \<open>Scene objects and notifications\<close>

record BoundingBox =
  bb_min :: Vector3
  bb_max :: Vector3

record Node =
  worldPosition :: Vector3
  unitScale :: bool

record Obstacle =
  obstacleId :: uint32
  ob_node :: "Node option"
  radius :: float
  height :: float
  enabledEffective :: bool

text \<open>
  The notification sink is the list of events sent so far, oldest first. An obstacle event
  carries the position, radius and height that the code puts into the event data; the
  area event carries the bounds of the tile.
\<close>

datatype Event =
    E_NAVIGATION_MESH_REBUILT
  | E_NAVIGATION_TILE_ADDED "int \<times> int"
  | E_NAVIGATION_AREA_REBUILT Vector3 Vector3
  | E_NAVIGATION_OBSTACLE_ADDED Vector3 float float
  | E_NAVIGATION_OBSTACLE_REMOVED Vector3 float float

record NavigationGeometryInfo =
  gi_boundingBox :: BoundingBox

section \<open>The navigation library: navmesh and compressed tile cache\<close>

text \<open>
  Detour and Recast are third-party libraries: none of their code is among the sources.
  The parameter structs are records; their memory image is the sequence of their 32-bit
  fields in declaration order.
\<close>

record dtNavMeshParams =
  nmp_orig :: Vector3
  nmp_tileWidth :: float
  nmp_tileHeight :: float
  nmp_maxTiles :: uint32
  nmp_maxPolys :: uint32

record dtTileCacheParams =
  tcp_orig :: Vector3
  tcp_cs :: float
  tcp_ch :: float
  tcp_width :: uint32
  tcp_height :: uint32
  tcp_walkableHeight :: float
  tcp_walkableRadius :: float
  tcp_walkableClimb :: float
  tcp_maxSimplificationError :: float
  tcp_maxTiles :: uint32
  tcp_maxObstacles :: uint32

definition Vector3_words :: "Vector3 \<Rightarrow> 32 word list" where
  "Vector3_words v = (case v of (x, y, z) \<Rightarrow> [x, y, z])"


definition BoundingBox_of_words :: "32 word list \<Rightarrow> BoundingBox" where
  "BoundingBox_of_words ws = (case ws of
      [a, b, c, d, e, f] \<Rightarrow> \<lparr>bb_min = (a, b, c), bb_max = (d, e, f)\<rparr>
    | _ \<Rightarrow> \<lparr>bb_min = (0, 0, 0), bb_max = (0, 0, 0)\<rparr>)"


definition dtNavMeshParams_of_words :: "32 word list \<Rightarrow> dtNavMeshParams" where
  "dtNavMeshParams_of_words ws = (case ws of
      [a, b, c, w, h, t, p] \<Rightarrow>
        \<lparr>nmp_orig = (a, b, c), nmp_tileWidth = w, nmp_tileHeight = h,
         nmp_maxTiles = t, nmp_maxPolys = p\<rparr>
    | _ \<Rightarrow>
        \<lparr>nmp_orig = (0, 0, 0), nmp_tileWidth = 0, nmp_tileHeight = 0,
         nmp_maxTiles = 0, nmp_maxPolys = 0\<rparr>)"


definition dtTileCacheParams_of_words :: "32 word list \<Rightarrow> dtTileCacheParams" where
  "dtTileCacheParams_of_words ws = (case ws of
      [a, b, c, cs, ch, w, h, wh, wr, wc, e, t, ob] \<Rightarrow>
        \<lparr>tcp_orig = (a, b, c), tcp_cs = cs, tcp_ch = ch, tcp_width = w, tcp_height = h,
         tcp_walkableHeight = wh, tcp_walkableRadius = wr, tcp_walkableClimb = wc,
         tcp_maxSimplificationError = e, tcp_maxTiles = t, tcp_maxObstacles = ob\<rparr>
    | _ \<Rightarrow>
        \<lparr>tcp_orig = (0, 0, 0), tcp_cs = 0, tcp_ch = 0, tcp_width = 0, tcp_height = 0,
         tcp_walkableHeight = 0, tcp_walkableRadius = 0, tcp_walkableClimb = 0,
         tcp_maxSimplificationError = 0, tcp_maxTiles = 0, tcp_maxObstacles = 0\<rparr>)"

text \<open>
  A compressed tile is one layer blob: its handle (\<^verbatim>\<open>dtCompressedTileRef\<close>) and its bytes.
  The blob starts with its \<^verbatim>\<open>dtTileCacheLayerHeader\<close> (\<^verbatim>\<open>tile->header\<close> points at
  \<^verbatim>\<open>tile->data\<close>), so the header fields are read from the bytes.
\<close>

record dtCompressedTile =
  ct_ref :: uint32
  ct_data :: "byte list"

definition sizeof_dtTileCacheLayerHeader :: nat where
  "sizeof_dtTileCacheLayerHeader = 56"

definition DT_TILECACHE_MAGIC :: uint32 where
  \<comment> \<open>\<^verbatim>\<open>'D'<<24 | 'T'<<16 | 'L'<<8 | 'R'\<close>\<close>
  "DT_TILECACHE_MAGIC = 0x44544C52"

definition DT_TILECACHE_VERSION :: uint32 where
  "DT_TILECACHE_VERSION = 1"

definition hdr_magic :: "byte list \<Rightarrow> uint32" where
  "hdr_magic d = rd32 d"

definition hdr_version :: "byte list \<Rightarrow> uint32" where
  "hdr_version d = rd32 (drop 4 d)"

definition hdr_tx :: "byte list \<Rightarrow> int" where
  "hdr_tx d = sint (rd32 (drop 8 d))"

definition hdr_ty :: "byte list \<Rightarrow> int" where
  "hdr_ty d = sint (rd32 (drop 12 d))"

definition hdr_tlayer :: "byte list \<Rightarrow> int" where
  "hdr_tlayer d = sint (rd32 (drop 16 d))"

text \<open>
  The cache holds its parameters, its tiles (the newest first, the order in which a
  lookup by coordinate meets them) and its obstacle bookkeeping \<open>'o\<close>, which only the
  library reads. The navmesh holds its parameters and the handle (\<^verbatim>\<open>dtTileRef\<close>) of the
  polygon tile at each (x, y, layer); polygon data is not modelled.
\<close>

record 'o dtTileCache =
  tc_params :: dtTileCacheParams
  tc_tiles :: "dtCompressedTile list"
  tc_obst :: 'o

record dtNavMesh =
  nm_params :: dtNavMeshParams
  nm_tiles :: "((int \<times> int \<times> int) \<times> uint32) list"

definition tile_at :: "int \<Rightarrow> int \<Rightarrow> dtCompressedTile \<Rightarrow> bool" where
  "tile_at x z t = (hdr_tx (ct_data t) = x \<and> hdr_ty (ct_data t) = z)"

definition getTilesAt :: "'o dtTileCache \<Rightarrow> int \<Rightarrow> int \<Rightarrow> int \<Rightarrow> uint32 list" where
  \<comment> \<open>Modelled from the spec: \<^verbatim>\<open>dtTileCache::getTilesAt(tx, ty, tiles, maxTiles)\<close>, the
      cache as a mapping from tile coordinate to a list of layer blobs. It stores the
      handles of the tiles at the coordinate, at most \<open>maxTiles\<close> of them.\<close>
  "getTilesAt tc x z maxTiles =
     map ct_ref (take (nat maxTiles) (filter (tile_at x z) (tc_tiles tc)))"

definition getTileByRef :: "'o dtTileCache \<Rightarrow> uint32 \<Rightarrow> dtCompressedTile option" where
  \<comment> \<open>Modelled from the spec: the tile that a handle names, if any.\<close>
  "getTileByRef tc r = (if r = 0 then None else find (\<lambda>t. ct_ref t = r) (tc_tiles tc))"

definition fresh_ref :: "uint32 list \<Rightarrow> uint32" where
  "fresh_ref used =
     (case find (\<lambda>r. r \<notin> set used) (map word_of_nat [1..<length used + 2]) of
        Some r \<Rightarrow> r | None \<Rightarrow> 0)"

definition addTile :: "'o dtTileCache \<Rightarrow> byte list \<Rightarrow> bool \<times> uint32 \<times> 'o dtTileCache" where
  \<comment> \<open>Modelled from the spec: \<^verbatim>\<open>dtTileCache::addTile\<close>. It refuses a blob whose header has
      the wrong magic or version, a blob for a (x, y, layer) that is taken, and any blob
      once \<^verbatim>\<open>maxTiles\<close> tiles are held; otherwise the blob is stored under a new handle.\<close>
  "addTile tc d =
     (if hdr_magic d \<noteq> DT_TILECACHE_MAGIC \<or> hdr_version d \<noteq> DT_TILECACHE_VERSION then
        (False, 0, tc)
      else if list_ex (\<lambda>t. tile_at (hdr_tx d) (hdr_ty d) t \<and> hdr_tlayer (ct_data t) = hdr_tlayer d)
                (tc_tiles tc) then (False, 0, tc)
      else if sint (tcp_maxTiles (tc_params tc)) \<le> int (length (tc_tiles tc)) then (False, 0, tc)
      else
        (let r = fresh_ref (map ct_ref (tc_tiles tc))
         in (True, r, tc\<lparr>tc_tiles := \<lparr>ct_ref = r, ct_data = d\<rparr> # tc_tiles tc\<rparr>)))"

definition removeTile :: "'o dtTileCache \<Rightarrow> uint32 \<Rightarrow> bool \<times> 'o dtTileCache" where
  \<comment> \<open>Modelled from the spec: \<^verbatim>\<open>dtTileCache::removeTile(ref, data, dataSize)\<close> takes the tile
      that the handle names out of the cache; it fails on the null handle and on a handle
      that names no tile. The handle is a plain 32-bit number.\<close>
  "removeTile tc r =
     (if r = 0 then (False, tc)
      else if list_ex (\<lambda>t. ct_ref t = r) (tc_tiles tc) then
        (True, tc\<lparr>tc_tiles := filter (\<lambda>t. ct_ref t \<noteq> r) (tc_tiles tc)\<rparr>)
      else (False, tc))"

definition set_tiles :: "((int \<times> int \<times> int) \<times> uint32) list \<Rightarrow> dtNavMesh \<Rightarrow> dtNavMesh" where
  "set_tiles ts nm = nm\<lparr>nm_tiles := ts\<rparr>"

definition getTileRefAt :: "dtNavMesh \<Rightarrow> int \<Rightarrow> int \<Rightarrow> int \<Rightarrow> uint32" where
  \<comment> \<open>Modelled from the spec: \<^verbatim>\<open>dtNavMesh::getTileRefAt(x, y, layer)\<close>, the handle of the
      navmesh polygon tile at the coordinate, 0 when there is none.\<close>
  "getTileRefAt nm x z layer =
     (case map_of (nm_tiles nm) (x, z, layer) of Some r \<Rightarrow> r | None \<Rightarrow> 0)"

text \<open>
  What the libraries, the scene and the float unit compute is a parameter: a record of
  functions. Allocation results are its booleans. \<open>rc_layers\<close> stands for the Recast
  pipeline of \<^verbatim>\<open>BuildTile\<close> from \<^verbatim>\<open>rcAllocHeightfield\<close> to \<^verbatim>\<open>rcBuildHeightfieldLayers\<close>: the error
  message of the step that failed, or the layers. The functions that rebuild polygon tiles
  (\<open>update\<close>, \<open>buildNavMeshTilesAt\<close>, \<open>buildNavMeshTile\<close>) return the navmesh's new table
  of tile handles; the obstacle functions and \<open>update\<close> return the cache's new obstacle
  bookkeeping. None of them touches a compressed tile: the blobs are the persisted content,
  from which the navmesh tiles are derived.
\<close>

record rcHeightfieldLayer =
  l_bmin :: Vector3
  l_bmax :: Vector3
  l_width :: uint32
  l_height :: uint32
  l_minx :: uint32
  l_maxx :: uint32
  l_miny :: uint32
  l_maxy :: uint32
  l_hmin :: uint32
  l_hmax :: uint32
  l_grid :: "byte list"

record 'o Detour =
  dtAllocNavMesh :: bool
  dtNavMesh_init :: "dtNavMeshParams \<Rightarrow> bool"
  dtAllocTileCache :: bool
  dtTileCache_init :: "dtTileCacheParams \<Rightarrow> 'o option"
  dtAlloc :: "int \<Rightarrow> bool"
  isObstacleQueueFull :: "'o \<Rightarrow> bool"
  update :: "float \<Rightarrow> 'o dtTileCache \<Rightarrow> dtNavMesh option \<Rightarrow> 'o \<times> ((int \<times> int \<times> int) \<times> uint32) list"
  addObstacle :: "'o \<Rightarrow> Vector3 \<Rightarrow> float \<Rightarrow> float \<Rightarrow> bool \<times> uint32 \<times> 'o"
  removeObstacle :: "'o \<Rightarrow> uint32 \<Rightarrow> bool \<times> 'o"
  buildNavMeshTilesAt ::
    "'o dtTileCache \<Rightarrow> int \<Rightarrow> int \<Rightarrow> dtNavMesh \<Rightarrow> ((int \<times> int \<times> int) \<times> uint32) list"
  buildNavMeshTile ::
    "'o dtTileCache \<Rightarrow> uint32 \<Rightarrow> dtNavMesh \<Rightarrow> ((int \<times> int \<times> int) \<times> uint32) list"
  collect_geometries :: "NavigationGeometryInfo list"
  GetTileGeometry :: "NavigationGeometryInfo list \<Rightarrow> int \<Rightarrow> int \<Rightarrow> Vector3 list \<times> int list"
  rc_layers :: "NavigationGeometryInfo list \<Rightarrow> int \<Rightarrow> int \<Rightarrow> string + rcHeightfieldLayer list"
  compress :: "rcHeightfieldLayer \<Rightarrow> byte list option"
  GetTileBoundingBox :: "int \<times> int \<Rightarrow> BoundingBox"
  Transformed :: "BoundingBox \<Rightarrow> BoundingBox"
  rcCalcGridSize :: "BoundingBox \<Rightarrow> float \<Rightarrow> int \<times> int"
  Merge_padded :: "BoundingBox \<Rightarrow> NavigationGeometryInfo list \<Rightarrow> BoundingBox"
  tileEdgeLength :: "int \<Rightarrow> float \<Rightarrow> float"

section \<open>DynamicNavigationMesh\<close>

record 'o DynamicNavigationMesh =
  node :: "Node option"
  scene :: "Obstacle list option"
  navMesh :: "dtNavMesh option"
  tileCache :: "'o dtTileCache option"
  boundingBox :: BoundingBox
  numTilesX :: int
  numTilesZ :: int
  tileSize :: int
  cellSize :: float
  cellHeight :: float
  edgeMaxError :: float
  agentMaxClimb :: float
  agentHeight :: float
  agentRadius :: float
  maxObstacles :: uint32
  maxLayers :: uint32
  tileQueue :: "(int \<times> int) list"
  events :: "Event list"
  errorLog :: "string list"

definition TILECACHE_MAXLAYERS :: nat where
  "TILECACHE_MAXLAYERS = 255"

definition SetMaxLayers :: "'o DynamicNavigationMesh \<Rightarrow> uint32 \<Rightarrow> 'o DynamicNavigationMesh" where
  "SetMaxLayers s n = s\<lparr>maxLayers := max 3 (min n (word_of_nat TILECACHE_MAXLAYERS))\<rparr>"

definition release_navigation_mesh :: "'o DynamicNavigationMesh \<Rightarrow> 'o DynamicNavigationMesh" where
  \<comment> \<open>Modelled from the spec: \<^verbatim>\<open>NavigationMesh::release_navigation_mesh\<close> is in
      navigation_mesh.cpp, which is not among the sources. The callers' comment: it
      releases the existing navigation data and zeroes the bounding box. Then
      \<^verbatim>\<open>ReleaseTileCache\<close> frees the cache.\<close>
  "release_navigation_mesh s =
     s\<lparr>navMesh := None, numTilesX := 0, numTilesZ := 0,
       boundingBox := \<lparr>bb_min = (0, 0, 0), bb_max = (0, 0, 0)\<rparr>,
       tileCache := None\<rparr>"

section \<open>Obstacles\<close>

text \<open>
  An operation that contains the wait loop returns an \<open>option\<close>: \<open>None\<close> when the loop never
  ends. Inside, \<open>Inl\<close> is a crash (a null pointer read, a failed \<^verbatim>\<open>assert\<close>) and \<open>Inr\<close> the
  state and the obstacle after the call.
\<close>

definition bind_r :: "(fault + 'a) option \<Rightarrow> ('a \<Rightarrow> (fault + 'b) option) \<Rightarrow> (fault + 'b) option" where
  "bind_r m f = (case m of None \<Rightarrow> None | Some (Inl e) \<Rightarrow> Some (Inl e) | Some (Inr x) \<Rightarrow> f x)"

partial_function (option) wait_for_requests ::
  "'o Detour \<Rightarrow> 'o dtTileCache \<Rightarrow> dtNavMesh option \<Rightarrow> ('o dtTileCache \<times> dtNavMesh option) option" where
  \<comment> \<open>\<^verbatim>\<open>while (tileCache_->isObstacleQueueFull()) tileCache_->update(1, navMesh_);\<close>\<close>
  "wait_for_requests d tc nm =
     (if isObstacleQueueFull d (tc_obst tc) then
        (case update d float_one tc nm of
           (ob, ts) \<Rightarrow> wait_for_requests d (tc\<lparr>tc_obst := ob\<rparr>) (map_option (set_tiles ts) nm))
      else Some (tc, nm))"

definition AddObstacle ::
  "'o Detour \<Rightarrow> 'o DynamicNavigationMesh \<Rightarrow> Obstacle \<Rightarrow> bool \<Rightarrow>
     (fault + 'o DynamicNavigationMesh \<times> Obstacle) option" where
  "AddObstacle d s ob silent =
     (case tileCache s of
        None \<Rightarrow> Some (Inr (s, ob))
      | Some tc \<Rightarrow>
          (case ob_node ob of
             None \<Rightarrow> Some (Inl NullPointer)
           | Some n \<Rightarrow>
               (case wait_for_requests d tc (navMesh s) of
                  None \<Rightarrow> None
                | Some (tc1, nm1) \<Rightarrow>
                    (case addObstacle d (tc_obst tc1) (worldPosition n) (radius ob) (height ob) of
                       (ok, refHolder, o2) \<Rightarrow>
                         (let s1 = s\<lparr>tileCache := Some (tc1\<lparr>tc_obst := o2\<rparr>), navMesh := nm1\<rparr>
                          in if \<not> ok then
                               Some (Inr (s1\<lparr>errorLog := errorLog s1 @ [''Failed to add obstacle'']\<rparr>, ob))
                             else if refHolder = 0 then Some (Inl AssertionFailed)
                             else if silent then Some (Inr (s1, ob\<lparr>obstacleId := refHolder\<rparr>))
                             else
                               Some (Inr (s1\<lparr>events := events s1 @
                                            [E_NAVIGATION_OBSTACLE_ADDED (worldPosition n) (radius ob) (height ob)]\<rparr>,
                                          ob\<lparr>obstacleId := refHolder\<rparr>)))))))"

definition RemoveObstacle ::
  "'o Detour \<Rightarrow> 'o DynamicNavigationMesh \<Rightarrow> Obstacle \<Rightarrow> bool \<Rightarrow>
     (fault + 'o DynamicNavigationMesh \<times> Obstacle) option" where
  "RemoveObstacle d s ob silent =
     (case tileCache s of
        None \<Rightarrow> Some (Inr (s, ob))
      | Some tc \<Rightarrow>
          if obstacleId ob = 0 then Some (Inr (s, ob))
          else
            (case wait_for_requests d tc (navMesh s) of
               None \<Rightarrow> None
             | Some (tc1, nm1) \<Rightarrow>
                 (case removeObstacle d (tc_obst tc1) (obstacleId ob) of
                    (ok, o2) \<Rightarrow>
                      (let s1 = s\<lparr>tileCache := Some (tc1\<lparr>tc_obst := o2\<rparr>), navMesh := nm1\<rparr>
                       in if \<not> ok then
                            Some (Inr (s1\<lparr>errorLog := errorLog s1 @ [''Failed to remove obstacle'']\<rparr>, ob))
                          else
                            (case ob_node ob of
                               Some n \<Rightarrow>
                                 if silent then Some (Inr (s1, ob\<lparr>obstacleId := 0\<rparr>))
                                 else
                                   Some (Inr (s1\<lparr>events := events s1 @
                                                [E_NAVIGATION_OBSTACLE_REMOVED (worldPosition n) (radius ob) (height ob)]\<rparr>,
                                              ob\<lparr>obstacleId := 0\<rparr>))
                             | None \<Rightarrow> Some (Inr (s1, ob\<lparr>obstacleId := 0\<rparr>)))))))"

definition ObstacleChanged ::
  "'o Detour \<Rightarrow> 'o DynamicNavigationMesh \<Rightarrow> Obstacle \<Rightarrow>
     (fault + 'o DynamicNavigationMesh \<times> Obstacle) option" where
  "ObstacleChanged d s ob =
     (case tileCache s of
        None \<Rightarrow> Some (Inr (s, ob))
      | Some tc \<Rightarrow>
          bind_r (RemoveObstacle d s ob True) (\<lambda>(s1, ob1). AddObstacle d s1 ob1 True))"

definition ObstacleChanged_spec ::
  "'o Detour \<Rightarrow> 'o DynamicNavigationMesh \<Rightarrow> Obstacle \<Rightarrow>
     (fault + 'o DynamicNavigationMesh \<times> Obstacle) option" where
  \<comment> \<open>The spec's words for \<^verbatim>\<open>ObstacleChanged\<close>: the removal with its notification suppressed,
      followed by the normal (non-silent) add.\<close>
  "ObstacleChanged_spec d s ob =
     bind_r (RemoveObstacle d s ob True) (\<lambda>(s1, ob1). AddObstacle d s1 ob1 False)"

section \<open>Allocation and the full build\<close>

fun AddObstacles ::
  "'o Detour \<Rightarrow> 'o DynamicNavigationMesh \<Rightarrow> Obstacle list \<Rightarrow>
     (fault + 'o DynamicNavigationMesh \<times> Obstacle list) option" where
  \<comment> \<open>The loop over the scene's obstacle components: each enabled one is added.\<close>
  "AddObstacles d s [] = Some (Inr (s, []))"
| "AddObstacles d s (ob # obs) =
     (if enabledEffective ob then
        bind_r (AddObstacle d s ob False)
          (\<lambda>(s1, ob1). bind_r (AddObstacles d s1 obs) (\<lambda>(s2, obs'). Some (Inr (s2, ob1 # obs'))))
      else bind_r (AddObstacles d s obs) (\<lambda>(s2, obs'). Some (Inr (s2, ob # obs'))))"

definition scan_obstacles ::
  "'o Detour \<Rightarrow> 'o DynamicNavigationMesh \<Rightarrow> (fault + 'o DynamicNavigationMesh) option" where
  \<comment> \<open>\<^verbatim>\<open>GetScene()->GetChildrenWithComponent<Obstacle>(obstacles, true)\<close> and the loop.\<close>
  "scan_obstacles d s =
     (case scene s of
        None \<Rightarrow> Some (Inl NullPointer)
      | Some obs \<Rightarrow>
          bind_r (AddObstacles d s obs) (\<lambda>(s1, obs'). Some (Inr (s1\<lparr>scene := Some obs'\<rparr>))))"

definition numTiles_of :: "int \<Rightarrow> int \<Rightarrow> int" where
  \<comment> \<open>\<^verbatim>\<open>(gridW + tileSize_ - 1) / tileSize_\<close>\<close>
  "numTiles_of grid ts = int32 (cdiv (int32 (int32 (grid + ts) - 1)) ts)"

definition tile_cache_params ::
  "'o DynamicNavigationMesh \<Rightarrow> Vector3 \<Rightarrow> uint32 \<Rightarrow> dtTileCacheParams" where
  \<comment> \<open>The \<^verbatim>\<open>dtTileCacheParams\<close> that \<^verbatim>\<open>Allocate\<close> and \<^verbatim>\<open>Build\<close> fill in, for a given
      \<^verbatim>\<open>maxTiles\<close>.\<close>
  "tile_cache_params s orig n =
     \<lparr>tcp_orig = orig, tcp_cs = cellSize s, tcp_ch = cellHeight s,
      tcp_width = word_of_int (tileSize s), tcp_height = word_of_int (tileSize s),
      tcp_walkableHeight = agentHeight s, tcp_walkableRadius = agentRadius s,
      tcp_walkableClimb = agentMaxClimb s, tcp_maxSimplificationError = edgeMaxError s,
      tcp_maxTiles = n, tcp_maxObstacles = maxObstacles s\<rparr>"

definition add_error :: "string \<Rightarrow> 'o DynamicNavigationMesh \<Rightarrow> 'o DynamicNavigationMesh" where
  \<comment> \<open>\<^verbatim>\<open>DV_LOGERROR\<close>; warnings and debug messages are not recorded.\<close>
  "add_error msg s = s\<lparr>errorLog := errorLog s @ [msg]\<rparr>"

definition send_event :: "Event \<Rightarrow> 'o DynamicNavigationMesh \<Rightarrow> 'o DynamicNavigationMesh" where
  "send_event e s = s\<lparr>events := events s @ [e]\<rparr>"

definition create_mesh_and_cache ::
  "'o Detour \<Rightarrow> 'o DynamicNavigationMesh \<Rightarrow> dtNavMeshParams \<Rightarrow> dtTileCacheParams \<Rightarrow>
     bool \<times> 'o DynamicNavigationMesh" where
  \<comment> \<open>The part that \<^verbatim>\<open>Allocate\<close>, \<^verbatim>\<open>Build\<close> and \<^verbatim>\<open>SetNavigationDataAttr\<close> share word for
      word: \<^verbatim>\<open>dtAllocNavMesh\<close>, \<^verbatim>\<open>navMesh_->init\<close>, \<^verbatim>\<open>dtAllocTileCache\<close>, \<^verbatim>\<open>tileCache_->init\<close>,
      each with its error return. (None of the three releases the mesh when
      \<^verbatim>\<open>dtAllocNavMesh\<close> fails.)\<close>
  "create_mesh_and_cache d s params tcParams =
     (if \<not> dtAllocNavMesh d then (False, add_error ''Could not allocate navigation mesh'' s)
      else if \<not> dtNavMesh_init d params then
        (False, release_navigation_mesh (add_error ''Could not initialize navigation mesh'' s))
      else if \<not> dtAllocTileCache d then
        (False, release_navigation_mesh (add_error ''Could not allocate tile cache'' s))
      else
        (case dtTileCache_init d tcParams of
           None \<Rightarrow> (False, release_navigation_mesh (add_error ''Could not initialize tile cache'' s))
         | Some ob \<Rightarrow>
             (True, s\<lparr>navMesh := Some \<lparr>nm_params = params, nm_tiles = []\<rparr>,
                      tileCache := Some \<lparr>tc_params = tcParams, tc_tiles = [], tc_obst = ob\<rparr>\<rparr>)))"

definition Allocate ::
  "'o Detour \<Rightarrow> 'o DynamicNavigationMesh \<Rightarrow> BoundingBox \<Rightarrow> uint32 \<Rightarrow>
     (fault + bool \<times> 'o DynamicNavigationMesh) option" where
  "Allocate d s bbox maxTiles0 =
     (let s0 = release_navigation_mesh s in
      case node s0 of
        None \<Rightarrow> Some (Inr (False, s0))
      | Some n \<Rightarrow>
          (let bb = Transformed d bbox;
               maxTiles = NextPowerOfTwo maxTiles0;
               tel = tileEdgeLength d (tileSize s0) (cellSize s0);
               grid = rcCalcGridSize d bb (cellSize s0)
           in if tileSize s0 = 0 then Some (Inl DivisionByZero)
              else
                (let s1 = s0\<lparr>boundingBox := bb,
                            numTilesX := numTiles_of (fst grid) (tileSize s0),
                            numTilesZ := numTiles_of (snd grid) (tileSize s0)\<rparr>;
                     tileBits = LogBaseTwo maxTiles
                 in case shl1 (22 - tileBits) of
                      None \<Rightarrow> Some (Inl UndefinedShift)
                    | Some maxPolys \<Rightarrow>
                        (case create_mesh_and_cache d s1
                                \<lparr>nmp_orig = bb_min bb, nmp_tileWidth = tel, nmp_tileHeight = tel,
                                 nmp_maxTiles = maxTiles, nmp_maxPolys = maxPolys\<rparr>
                                (tile_cache_params s1 (bb_min bb) (maxTiles * maxLayers s1)) of
                           (False, s2) \<Rightarrow> Some (Inr (False, s2))
                         | (True, s2) \<Rightarrow>
                             bind_r (scan_obstacles d s2)
                               (\<lambda>s3. Some (Inr (True, send_event E_NAVIGATION_MESH_REBUILT s3)))))))"

section \<open>Building one tile\<close>

definition header_image :: "int \<Rightarrow> int \<Rightarrow> int \<Rightarrow> rcHeightfieldLayer \<Rightarrow> byte list" where
  \<comment> \<open>The \<^verbatim>\<open>dtTileCacheLayerHeader\<close> that \<^verbatim>\<open>BuildTile\<close> fills in for layer \<open>i\<close> of tile
      \<open>(x, z)\<close>, as it lies in memory: magic, version, tx, ty, tlayer, bmin, bmax, hmin,
      hmax, width, height, minx, maxx, miny, maxy, and two bytes of padding.\<close>
  "header_image x z i l =
     le32 DT_TILECACHE_MAGIC @ le32 DT_TILECACHE_VERSION @
     le32 (word_of_int x) @ le32 (word_of_int z) @ le32 (word_of_int i) @
     put32s (Vector3_words (l_bmin l)) @ put32s (Vector3_words (l_bmax l)) @
     le16 (ucast (l_hmin l)) @ le16 (ucast (l_hmax l)) @
     [ucast (l_width l), ucast (l_height l), ucast (l_minx l), ucast (l_maxx l),
      ucast (l_miny l), ucast (l_maxy l)] @ [0, 0]"

definition dtBuildTileCacheLayer :: "'o Detour \<Rightarrow> byte list \<Rightarrow> rcHeightfieldLayer \<Rightarrow> byte list option" where
  \<comment> \<open>Modelled from the spec: \<^verbatim>\<open>dtBuildTileCacheLayer\<close> is Detour's. The spec: each blob
      carries a header plus the compressed payload that the tile compressor produces.\<close>
  "dtBuildTileCacheLayer d hdr l = map_option (\<lambda>c. hdr @ c) (compress d l)"

fun build_layers ::
  "'o Detour \<Rightarrow> int \<Rightarrow> int \<Rightarrow> int \<Rightarrow> rcHeightfieldLayer list \<Rightarrow> byte list list option" where
  \<comment> \<open>The loop over \<^verbatim>\<open>build.heightFieldLayers_->layers\<close>: \<open>None\<close> when a layer fails.\<close>
  "build_layers d x z i [] = Some []"
| "build_layers d x z i (l # ls) =
     (case dtBuildTileCacheLayer d (header_image x z i l) l of
        None \<Rightarrow> None
      | Some data \<Rightarrow> map_option ((#) data) (build_layers d x z (i + 1) ls))"

definition BuildTile ::
  "'o Detour \<Rightarrow> 'o DynamicNavigationMesh \<Rightarrow> NavigationGeometryInfo list \<Rightarrow> int \<Rightarrow> int \<Rightarrow>
     fault + byte list list \<times> 'o DynamicNavigationMesh" where
  \<comment> \<open>Returns the blobs written into \<^verbatim>\<open>tiles\<close> (their number is the \<^verbatim>\<open>int\<close> returned).\<close>
  "BuildTile d s geometryList x z =
     (case (tileCache s, navMesh s) of
        (Some tc, Some nm) \<Rightarrow>
          (let s1 = s\<lparr>tileCache := Some (snd (removeTile tc (getTileRefAt nm x z 0)))\<rparr>;
               build = GetTileGeometry d geometryList x z
           in if fst build = [] \<or> snd build = [] then Inr ([], s1)
              else
                (case rc_layers d geometryList x z of
                   Inl msg \<Rightarrow> Inr ([], add_error msg s1)
                 | Inr layers \<Rightarrow>
                     if TILECACHE_MAXLAYERS < length layers then Inl BufferOverrun
                     else
                       (case build_layers d x z 0 layers of
                          None \<Rightarrow> Inr ([], add_error ''Failed to build tile cache layers'' s1)
                        | Some tiles \<Rightarrow>
                            Inr (tiles,
                                 send_event
                                   (E_NAVIGATION_AREA_REBUILT
                                      (bb_min (GetTileBoundingBox d (x, z)))
                                      (bb_max (GetTileBoundingBox d (x, z)))) s1))))
      | _ \<Rightarrow> Inl NullPointer)"

definition add_layers :: "'o dtTileCache \<Rightarrow> byte list list \<Rightarrow> 'o dtTileCache" where
  \<comment> \<open>\<^verbatim>\<open>Build\<close>: every blob is offered to \<^verbatim>\<open>addTile\<close>; one that is refused is freed.\<close>
  "add_layers tc tiles = foldl (\<lambda>c t. snd (snd (addTile c t))) tc tiles"

definition build_one ::
  "'o Detour \<Rightarrow> NavigationGeometryInfo list \<Rightarrow> 'o DynamicNavigationMesh \<Rightarrow> int \<times> int \<Rightarrow>
     fault + 'o DynamicNavigationMesh" where
  \<comment> \<open>The body of the loops of \<^verbatim>\<open>Build()\<close> for the tile \<open>(x, z)\<close>.\<close>
  "build_one d geometryList s xz =
     (case BuildTile d s geometryList (fst xz) (snd xz) of
        Inl f \<Rightarrow> Inl f
      | Inr (tiles, s1) \<Rightarrow>
          (case tileCache s1 of
             None \<Rightarrow> Inl NullPointer
           | Some tc \<Rightarrow>
               (let tc1 = add_layers tc tiles
                in Inr (s1\<lparr>tileCache := Some tc1,
                          navMesh := map_option (\<lambda>nm. set_tiles (buildNavMeshTilesAt d tc1 (fst xz) (snd xz) nm) nm)
                                       (navMesh s1)\<rparr>))))"

fun for_tiles ::
  "('s \<Rightarrow> int \<times> int \<Rightarrow> fault + 's) \<Rightarrow> 's \<Rightarrow> (int \<times> int) list \<Rightarrow> fault + 's" where
  "for_tiles body s [] = Inr s"
| "for_tiles body s (xz # rest) =
     (case body s xz of Inl f \<Rightarrow> Inl f | Inr s1 \<Rightarrow> for_tiles body s1 rest)"

definition grid_coords :: "int \<Rightarrow> int \<Rightarrow> int \<Rightarrow> int \<Rightarrow> (int \<times> int) list" where
  \<comment> \<open>\<^verbatim>\<open>for (z = z0; z <= z1; ++z) for (x = x0; x <= x1; ++x)\<close>: the pairs \<open>(x, z)\<close> in the
      order the loops visit them.\<close>
  "grid_coords x0 x1 z0 z1 = concat (map (\<lambda>z. map (\<lambda>x. (x, z)) [x0..x1]) [z0..z1])"

definition cache_update ::
  "'o Detour \<Rightarrow> float \<Rightarrow> 'o DynamicNavigationMesh \<Rightarrow> fault + 'o DynamicNavigationMesh" where
  \<comment> \<open>\<^verbatim>\<open>tileCache_->update(dt, navMesh_)\<close>\<close>
  "cache_update d dt s =
     (case tileCache s of
        None \<Rightarrow> Inl NullPointer
      | Some tc \<Rightarrow>
          (case update d dt tc (navMesh s) of
             (ob, ts) \<Rightarrow>
               Inr (s\<lparr>tileCache := Some (tc\<lparr>tc_obst := ob\<rparr>),
                      navMesh := map_option (set_tiles ts) (navMesh s)\<rparr>)))"

definition Build ::
  "'o Detour \<Rightarrow> 'o DynamicNavigationMesh \<Rightarrow> (fault + bool \<times> 'o DynamicNavigationMesh) option" where
  "Build d s =
     (let s0 = release_navigation_mesh s in
      case node s0 of
        None \<Rightarrow> Some (Inr (False, s0))
      | Some n \<Rightarrow>
          (let geometryList = collect_geometries d
           in if geometryList = [] then Some (Inr (True, s0))
              else
                (let bb = Merge_padded d (boundingBox s0) geometryList;
                     tel = tileEdgeLength d (tileSize s0) (cellSize s0);
                     grid = rcCalcGridSize d bb (cellSize s0)
                 in if tileSize s0 = 0 then Some (Inl DivisionByZero)
                    else
                      (let nx = numTiles_of (fst grid) (tileSize s0);
                           nz = numTiles_of (snd grid) (tileSize s0);
                           s1 = s0\<lparr>boundingBox := bb, numTilesX := nx, numTilesZ := nz\<rparr>;
                           maxTiles = NextPowerOfTwo (word_of_int (nx * nz)) * maxLayers s1;
                           tileBits = LogBaseTwo maxTiles
                       in case shl1 (22 - tileBits) of
                            None \<Rightarrow> Some (Inl UndefinedShift)
                          | Some maxPolys \<Rightarrow>
                              (case create_mesh_and_cache d s1
                                      \<lparr>nmp_orig = bb_min bb, nmp_tileWidth = tel, nmp_tileHeight = tel,
                                       nmp_maxTiles = maxTiles, nmp_maxPolys = maxPolys\<rparr>
                                      (tile_cache_params s1 (bb_min bb)
                                         (word_of_int nx * word_of_int nz * maxLayers s1)) of
                                 (False, s2) \<Rightarrow> Some (Inr (False, s2))
                               | (True, s2) \<Rightarrow>
                                   (case for_tiles (build_one d geometryList) s2
                                           (grid_coords 0 (nx - 1) 0 (nz - 1)) of
                                      Inl f \<Rightarrow> Some (Inl f)
                                    | Inr s3 \<Rightarrow>
                                        (case cache_update d float_zero s3 of
                                           Inl f \<Rightarrow> Some (Inl f)
                                         | Inr s4 \<Rightarrow>
                                             bind_r (scan_obstacles d (send_event E_NAVIGATION_MESH_REBUILT s4))
                                               (\<lambda>s5. Some (Inr (True, s5))))))))))"

definition Build_params ::
  "'o Detour \<Rightarrow> 'o DynamicNavigationMesh \<Rightarrow>
     fault + 'o DynamicNavigationMesh \<times> dtNavMeshParams \<times> dtTileCacheParams" where
  \<comment> \<open>What \<^verbatim>\<open>Build()\<close> has computed when it reaches \<^verbatim>\<open>dtAllocNavMesh\<close>, for a mesh with a
      node and geometry: the mesh with the merged, padded bounding box and the tile counts,
      and the \<^verbatim>\<open>params\<close> and \<^verbatim>\<open>tileCacheParams\<close> that it passes to the two \<^verbatim>\<open>init\<close> calls
      (the second struct is filled in after \<^verbatim>\<open>navMesh_->init\<close>, from fields that nothing in
      between changes).\<close>
  "Build_params d s =
     (let s0 = release_navigation_mesh s;
          geometryList = collect_geometries d;
          bb = Merge_padded d (boundingBox s0) geometryList;
          tel = tileEdgeLength d (tileSize s0) (cellSize s0);
          grid = rcCalcGridSize d bb (cellSize s0)
      in if tileSize s0 = 0 then Inl DivisionByZero
         else
           (let nx = numTiles_of (fst grid) (tileSize s0);
                nz = numTiles_of (snd grid) (tileSize s0);
                s1 = s0\<lparr>boundingBox := bb, numTilesX := nx, numTilesZ := nz\<rparr>;
                maxTiles = NextPowerOfTwo (word_of_int (nx * nz)) * maxLayers s1;
                tileBits = LogBaseTwo maxTiles
            in case shl1 (22 - tileBits) of
                 None \<Rightarrow> Inl UndefinedShift
               | Some maxPolys \<Rightarrow>
                   Inr (s1,
                        \<lparr>nmp_orig = bb_min bb, nmp_tileWidth = tel, nmp_tileHeight = tel,
                         nmp_maxTiles = maxTiles, nmp_maxPolys = maxPolys\<rparr>,
                        tile_cache_params s1 (bb_min bb)
                          (word_of_int nx * word_of_int nz * maxLayers s1))))"

section \<open>Partial rebuild\<close>

definition remove_existing :: "'o dtTileCache \<Rightarrow> uint32 list \<Rightarrow> 'o dtTileCache" where
  \<comment> \<open>The loop over \<^verbatim>\<open>existing\<close>: each handle is removed (the data is freed).\<close>
  "remove_existing tc refs = foldl (\<lambda>c r. snd (removeTile c r)) tc refs"

fun add_built ::
  "'o Detour \<Rightarrow> 'o dtTileCache \<Rightarrow> dtNavMesh option \<Rightarrow> byte list list \<Rightarrow>
     'o dtTileCache \<times> dtNavMesh option \<times> nat" where
  \<comment> \<open>The loop over the layers in \<^verbatim>\<open>build_tiles\<close>: a blob that the cache takes is turned
      into a navmesh tile and counted.\<close>
  "add_built d tc nm [] = (tc, nm, 0)"
| "add_built d tc nm (t # ts) =
     (case addTile tc t of
        (ok, tileRef, tc1) \<Rightarrow>
          if \<not> ok then add_built d tc nm ts
          else
            (case add_built d tc1
                    (map_option (\<lambda>m. set_tiles (buildNavMeshTile d tc1 tileRef m) m) nm) ts of
               (tc2, nm2, k) \<Rightarrow> (tc2, nm2, Suc k)))"

definition rebuild_one ::
  "'o Detour \<Rightarrow> NavigationGeometryInfo list \<Rightarrow> 'o DynamicNavigationMesh \<times> nat \<Rightarrow> int \<times> int \<Rightarrow>
     fault + 'o DynamicNavigationMesh \<times> nat" where
  \<comment> \<open>The body of the loops of \<^verbatim>\<open>build_tiles\<close> for the tile \<open>(x, z)\<close>; the \<open>nat\<close> is
      \<^verbatim>\<open>numTiles\<close>.\<close>
  "rebuild_one d geometryList sn xz =
     (case tileCache (fst sn) of
        None \<Rightarrow> Inl NullPointer
      | Some tc \<Rightarrow>
          (let existing = getTilesAt tc (fst xz) (snd xz) (sint (maxLayers (fst sn)));
               s1 = (fst sn)\<lparr>tileCache := Some (remove_existing tc existing)\<rparr>
           in case BuildTile d s1 geometryList (fst xz) (snd xz) of
                Inl f \<Rightarrow> Inl f
              | Inr (tiles, s2) \<Rightarrow>
                  (case tileCache s2 of
                     None \<Rightarrow> Inl NullPointer
                   | Some tc2 \<Rightarrow>
                       (case add_built d tc2 (navMesh s2) tiles of
                          (tc3, nm3, k) \<Rightarrow>
                            Inr (s2\<lparr>tileCache := Some tc3, navMesh := nm3\<rparr>, snd sn + k)))))"

definition INT_MAX :: int where
  "INT_MAX = 2147483647"

definition build_tiles ::
  "'o Detour \<Rightarrow> 'o DynamicNavigationMesh \<Rightarrow> NavigationGeometryInfo list \<Rightarrow> int \<times> int \<Rightarrow> int \<times> int \<Rightarrow>
     fault + 'o DynamicNavigationMesh \<times> nat" where
  \<comment> \<open>\<open>from\<close> and \<open>to\<close> are \<^verbatim>\<open>IntVector2\<close>: \<open>(x, y)\<close>. A loop whose upper bound is
      \<^verbatim>\<open>INT_MAX\<close> overflows its counter, which is undefined in C++.\<close>
  "build_tiles d s geometryList from to =
     (if snd from \<le> snd to \<and> (snd to = INT_MAX \<or> (fst from \<le> fst to \<and> fst to = INT_MAX)) then
        Inl SignedOverflow
      else
        for_tiles (rebuild_one d geometryList) (s, 0)
          (grid_coords (fst from) (fst to) (snd from) (snd to)))"

definition Build_tiles_from_to ::
  "'o Detour \<Rightarrow> 'o DynamicNavigationMesh \<Rightarrow> int \<times> int \<Rightarrow> int \<times> int \<Rightarrow>
     fault + bool \<times> 'o DynamicNavigationMesh" where
  \<comment> \<open>\<^verbatim>\<open>bool Build(const IntVector2& from, const IntVector2& to)\<close>\<close>
  "Build_tiles_from_to d s from to =
     (case node s of
        None \<Rightarrow> Inr (False, s)
      | Some n \<Rightarrow>
          (case navMesh s of
             None \<Rightarrow>
               Inr (False,
                 add_error ''Navigation mesh must first be built fully before it can be partially rebuilt'' s)
           | Some nm \<Rightarrow>
               (case build_tiles d s (collect_geometries d) from to of
                  Inl f \<Rightarrow> Inl f
                | Inr (s1, numTiles) \<Rightarrow> Inr (True, s1))))"

section \<open>Serialisation\<close>

text \<open>
  A \<^verbatim>\<open>Serializer\<close> is the list of bytes written; a \<^verbatim>\<open>Deserializer\<close> is the list of bytes not
  yet read, and \<^verbatim>\<open>IsEof\<close> holds when it is empty. A read that reaches the end of the stream
  is short; the model reads the missing bytes as 0.
\<close>

definition sizeof_BoundingBox :: nat where
  "sizeof_BoundingBox = 24"

definition sizeof_dtNavMeshParams :: nat where
  "sizeof_dtNavMeshParams = 28"

definition sizeof_dtTileCacheParams :: nat where
  "sizeof_dtTileCacheParams = 52"

definition is_void :: "dtCompressedTile option \<Rightarrow> bool" where
  \<comment> \<open>\<^verbatim>\<open>!tile || !tile->header || !tile->dataSize\<close>: a tile of the cache always has its
      header, which is the start of its data.\<close>
  "is_void t = (case t of None \<Rightarrow> True | Some c \<Rightarrow> ct_data c = [])"

definition write_tile :: "dtCompressedTile \<Rightarrow> byte list" where
  \<comment> \<open>The header, \<^verbatim>\<open>dataSize\<close>, and the data (which starts with the header again).\<close>
  "write_tile c =
     take sizeof_dtTileCacheLayerHeader (ct_data c @ replicate sizeof_dtTileCacheLayerHeader 0) @
     le32 (word_of_nat (length (ct_data c))) @ ct_data c"

definition WriteTiles :: "'o dtTileCache \<Rightarrow> uint32 \<Rightarrow> int \<Rightarrow> int \<Rightarrow> byte list" where
  \<comment> \<open>The bytes that \<^verbatim>\<open>WriteTiles(dest, x, z)\<close> appends to \<^verbatim>\<open>dest\<close>, for the cache and
      \<^verbatim>\<open>maxLayers_\<close> of the mesh.\<close>
  "WriteTiles tc ml x z =
     concat (map (\<lambda>r. case getTileByRef tc r of
                        None \<Rightarrow> []
                      | Some c \<Rightarrow> if is_void (Some c) then [] else write_tile c)
                 (getTilesAt tc x z (sint ml)))"




function read_tiles ::
  "'o Detour \<Rightarrow> byte list \<Rightarrow> 'o dtTileCache \<Rightarrow> (int \<times> int) list \<Rightarrow>
     (string + unit) \<times> 'o dtTileCache \<times> (int \<times> int) list" where
  \<comment> \<open>The \<^verbatim>\<open>while (!source.IsEof())\<close> loop of \<^verbatim>\<open>ReadTiles\<close>: \<open>Inl\<close> the error message of the
      early \<^verbatim>\<open>return false\<close>, with the cache and the tile queue as they then are.\<close>
  "read_tiles d src tc q =
     (if src = [] then (Inr (), tc, q)
      else if \<not> dtAlloc d (sint (rd32 (drop sizeof_dtTileCacheLayerHeader src))) then
        (Inl ''Could not allocate data for navigation mesh tile'', tc, q)
      else if \<not> fst (addTile tc
                  (take (nat (sint (rd32 (drop sizeof_dtTileCacheLayerHeader src))))
                     (drop (sizeof_dtTileCacheLayerHeader + 4) src @
                      replicate (nat (sint (rd32 (drop sizeof_dtTileCacheLayerHeader src)))) 0))) then
        (Inl ''Failed to add tile'', tc, q)
      else
        read_tiles d
          (drop (sizeof_dtTileCacheLayerHeader + 4 +
                 nat (sint (rd32 (drop sizeof_dtTileCacheLayerHeader src)))) src)
          (snd (snd (addTile tc
                  (take (nat (sint (rd32 (drop sizeof_dtTileCacheLayerHeader src))))
                     (drop (sizeof_dtTileCacheLayerHeader + 4) src @
                      replicate (nat (sint (rd32 (drop sizeof_dtTileCacheLayerHeader src)))) 0)))))
          (if q = [] \<or>
              last q \<noteq> (hdr_tx (take sizeof_dtTileCacheLayerHeader src),
                         hdr_ty (take sizeof_dtTileCacheLayerHeader src))
           then q @ [(hdr_tx (take sizeof_dtTileCacheLayerHeader src),
                      hdr_ty (take sizeof_dtTileCacheLayerHeader src))]
           else q))"
  by pat_completeness auto
termination
  by (relation "measure (\<lambda>(d, src, tc, q). length src)")
     (auto simp: sizeof_dtTileCacheLayerHeader_def)

definition ReadTiles ::
  "'o Detour \<Rightarrow> 'o DynamicNavigationMesh \<Rightarrow> byte list \<Rightarrow> bool \<Rightarrow>
     fault + bool \<times> 'o DynamicNavigationMesh" where
  "ReadTiles d s source silent =
     (case tileCache s of
        None \<Rightarrow> Inl NullPointer
      | Some tc \<Rightarrow>
          (case read_tiles d source tc [] of
             (Inl msg, tc1, q) \<Rightarrow>
               Inr (False, add_error msg (s\<lparr>tileCache := Some tc1, tileQueue := q\<rparr>))
           | (Inr u, tc1, q) \<Rightarrow>
               (let nm0 = foldl (\<lambda>nm xz. map_option
                                   (\<lambda>m. set_tiles (buildNavMeshTilesAt d tc1 (fst xz) (snd xz) m) m) nm)
                            (navMesh s) q
                in case update d float_zero tc1 nm0 of
                  (ob, ts) \<Rightarrow>
                    (let s1 = s\<lparr>tileCache := Some (tc1\<lparr>tc_obst := ob\<rparr>),
                                navMesh := map_option (set_tiles ts) nm0, tileQueue := q\<rparr>
                     in Inr (True,
                          if silent then s1
                          else s1\<lparr>events := events s1 @ map E_NAVIGATION_TILE_ADDED q\<rparr>)))))"

definition AddTile ::
  "'o Detour \<Rightarrow> 'o DynamicNavigationMesh \<Rightarrow> byte list \<Rightarrow> fault + bool \<times> 'o DynamicNavigationMesh" where
  "AddTile d s tileData = ReadTiles d s tileData False"

definition SetNavigationDataAttr ::
  "'o Detour \<Rightarrow> 'o DynamicNavigationMesh \<Rightarrow> byte list \<Rightarrow> fault + 'o DynamicNavigationMesh" where
  "SetNavigationDataAttr d s val =
     (let s0 = release_navigation_mesh s in
      if val = [] then Inr s0
      else
        (let s1 = s0\<lparr>boundingBox := BoundingBox_of_words (get32s 6 val),
                    numTilesX := sint (rd32 (drop sizeof_BoundingBox val)),
                    numTilesZ := sint (rd32 (drop (sizeof_BoundingBox + 4) val))\<rparr>;
             rest = drop (sizeof_BoundingBox + 8) val;
             params = dtNavMeshParams_of_words (get32s 7 rest);
             tcParams = dtTileCacheParams_of_words (get32s 13 (drop sizeof_dtNavMeshParams rest))
         in case create_mesh_and_cache d s1 params tcParams of
              (False, s2) \<Rightarrow> Inr s2
            | (True, s2) \<Rightarrow>
                (case ReadTiles d s2
                        (drop (sizeof_dtNavMeshParams + sizeof_dtTileCacheParams) rest) True of
                   Inl f \<Rightarrow> Inl f
                 | Inr (ok, s3) \<Rightarrow> Inr s3)))"

section \<open>MeshProcess\<close>

record OffMeshConnection =
  oc_node :: Node
  endPoint :: "Node option"
  oc_radius :: float
  mask :: uint32
  areaID :: uint32
  bidirectional :: bool
  oc_enabledEffective :: bool

fun discard_connections :: "OffMeshConnection list \<Rightarrow> OffMeshConnection list" where
  \<comment> \<open>The loop of \<^verbatim>\<open>CollectOffMeshConnections\<close> that erases every connection that is not
      enabled or has no end point.\<close>
  "discard_connections [] = []"
| "discard_connections (c # cs) =
     (if \<not> (oc_enabledEffective c \<and> endPoint c \<noteq> None) then discard_connections cs
      else c # discard_connections cs)"

definition CollectOffMeshConnections ::
  "OffMeshConnection list \<Rightarrow> BoundingBox \<Rightarrow> OffMeshConnection list" where
  \<comment> \<open>The first argument is what \<^verbatim>\<open>node_->GetComponents<OffMeshConnection>(connections, true)\<close>
      lists. The source does not read \<^verbatim>\<open>bounds\<close>.\<close>
  "CollectOffMeshConnections components bounds = discard_connections components"

record MeshProcess =
  offMeshVertices :: "Vector3 list"
  offMeshRadii :: "float list"
  offMeshFlags :: "16 word list"
  offMeshAreas :: "byte list"
  offMeshDir :: "byte list"

record dtNavMeshCreateParams =
  polyCount :: nat
  cp_bmin :: Vector3
  cp_bmax :: Vector3
  offMeshConCount :: nat
  offMeshConVerts :: "Vector3 list"
  offMeshConRad :: "float list"
  offMeshConFlags :: "16 word list"
  offMeshConAreas :: "byte list"
  offMeshConDir :: "byte list"

definition RC_NULL_AREA :: byte where
  "RC_NULL_AREA = 0"

definition RC_WALKABLE_AREA :: "16 word" where
  "RC_WALKABLE_AREA = 63"

definition DT_OFFMESH_CON_BIDIR :: byte where
  "DT_OFFMESH_CON_BIDIR = 1"

fun update_flags :: "nat \<Rightarrow> byte list \<Rightarrow> 16 word list \<Rightarrow> 16 word list" where
  \<comment> \<open>The loop over the first \<^verbatim>\<open>polyCount\<close> polygons.\<close>
  "update_flags (Suc n) (a # as) (f # fs) =
     (if a \<noteq> RC_NULL_AREA then RC_WALKABLE_AREA else f) # update_flags n as fs"
| "update_flags n as fs = fs"

definition ClearConnectionData :: "MeshProcess \<Rightarrow> MeshProcess" where
  "ClearConnectionData mp =
     mp\<lparr>offMeshVertices := [], offMeshRadii := [], offMeshFlags := [], offMeshAreas := [],
        offMeshDir := []\<rparr>"

definition push_connection :: "(Vector3 \<Rightarrow> Vector3) \<Rightarrow> MeshProcess \<Rightarrow> OffMeshConnection \<Rightarrow> MeshProcess" where
  \<comment> \<open>One round of the loop that fills the arrays; \<open>toLocal\<close> is the multiplication by the
      inverse world transform of the owner's node. The connection has an end point.\<close>
  "push_connection toLocal mp c =
     mp\<lparr>offMeshVertices := offMeshVertices mp @
            [toLocal (worldPosition (oc_node c)),
             toLocal (case endPoint c of Some e \<Rightarrow> worldPosition e | None \<Rightarrow> (0, 0, 0))],
        offMeshRadii := offMeshRadii mp @ [oc_radius c],
        offMeshFlags := offMeshFlags mp @ [ucast (mask c)],
        offMeshAreas := offMeshAreas mp @ [ucast (areaID c)],
        offMeshDir := offMeshDir mp @ [if bidirectional c then DT_OFFMESH_CON_BIDIR else 0]\<rparr>"

definition process ::
  "(Vector3 \<Rightarrow> Vector3) \<Rightarrow> OffMeshConnection list \<Rightarrow> MeshProcess \<Rightarrow> dtNavMeshCreateParams \<Rightarrow>
     byte list \<Rightarrow> 16 word list \<Rightarrow> MeshProcess \<times> dtNavMeshCreateParams \<times> 16 word list" where
  \<comment> \<open>\<^verbatim>\<open>MeshProcess::process(params, polyAreas, polyFlags)\<close>; \<open>components\<close> are the
      connections under the owner's node.\<close>
  "process toLocal components mp params polyAreas polyFlags =
     (let flags = update_flags (polyCount params) polyAreas polyFlags;
          bounds = \<lparr>bb_min = cp_bmin params, bb_max = cp_bmin params\<rparr>;
          offMeshConnections = CollectOffMeshConnections components bounds
      in if offMeshConnections = [] then (mp, params, flags)
         else
           (let mp1 = (if length offMeshConnections \<noteq> length (offMeshRadii mp)
                       then foldl (push_connection toLocal) (ClearConnectionData mp) offMeshConnections
                       else mp)
            in (mp1,
                params\<lparr>offMeshConCount := length (offMeshRadii mp1),
                       offMeshConVerts := offMeshVertices mp1,
                       offMeshConRad := offMeshRadii mp1,
                       offMeshConFlags := offMeshFlags mp1,
                       offMeshConAreas := offMeshAreas mp1,
                       offMeshConDir := offMeshDir mp1\<rparr>,
                flags)))"

section \<open>Concrete inputs\<close>

text \<open>
  A library whose obstacle bookkeeping is the number of pending requests: the queue is full
  at two requests, an update drains it, every added obstacle gets the handle 7, and the
  removal of the handle 99 fails.
\<close>

definition ex_detour :: "nat Detour" where
  "ex_detour =
     \<lparr>dtAllocNavMesh = True, dtNavMesh_init = (\<lambda>p. True), dtAllocTileCache = True,
      dtTileCache_init = (\<lambda>p. Some 0), dtAlloc = (\<lambda>n. 0 \<le> n),
      isObstacleQueueFull = (\<lambda>n. 2 \<le> n),
      update = (\<lambda>dt tc nm. (0, case nm of None \<Rightarrow> [] | Some m \<Rightarrow> nm_tiles m)),
      addObstacle = (\<lambda>n pos r h. (True, 7, Suc n)),
      removeObstacle = (\<lambda>n r. (r \<noteq> 99, Suc n)),
      buildNavMeshTilesAt = (\<lambda>tc x z nm. nm_tiles nm),
      buildNavMeshTile = (\<lambda>tc r nm. nm_tiles nm),
      collect_geometries = [],
      GetTileGeometry = (\<lambda>g x z. ([], [])),
      rc_layers = (\<lambda>g x z. Inr []),
      compress = (\<lambda>l. Some []),
      GetTileBoundingBox = (\<lambda>t. \<lparr>bb_min = (0, 0, 0), bb_max = (0, 0, 0)\<rparr>),
      Transformed = (\<lambda>b. b),
      rcCalcGridSize = (\<lambda>b cs. (0, 0)),
      Merge_padded = (\<lambda>b g. b),
      tileEdgeLength = (\<lambda>n cs. 0)\<rparr>"

definition ex_params :: dtTileCacheParams where
  "ex_params = \<lparr>tcp_orig = (0, 0, 0), tcp_cs = 0, tcp_ch = 0, tcp_width = 64, tcp_height = 64,
         tcp_walkableHeight = 0, tcp_walkableRadius = 0, tcp_walkableClimb = 0,
         tcp_maxSimplificationError = 0, tcp_maxTiles = 8, tcp_maxObstacles = 4\<rparr>"

definition ex_mesh :: "nat dtTileCache option \<Rightarrow> nat DynamicNavigationMesh" where
  "ex_mesh tc =
     \<lparr>node = Some \<lparr>worldPosition = (0, 0, 0), unitScale = True\<rparr>, scene = Some [],
      navMesh = None, tileCache = tc,
      boundingBox = \<lparr>bb_min = (0, 0, 0), bb_max = (0, 0, 0)\<rparr>,
      numTilesX = 2, numTilesZ = 1, tileSize = 64, cellSize = 0, cellHeight = 0,
      edgeMaxError = 0, agentMaxClimb = 0, agentHeight = 0, agentRadius = 0,
      maxObstacles = 4, maxLayers = 3, tileQueue = [], events = [], errorLog = []\<rparr>"

definition ex_obstacle :: "uint32 \<Rightarrow> Node option \<Rightarrow> Obstacle" where
  "ex_obstacle r n = \<lparr>obstacleId = r, ob_node = n, radius = 1, height = 2, enabledEffective = True\<rparr>"

definition ex_cache :: "nat \<Rightarrow> nat dtTileCache" where
  "ex_cache n = \<lparr>tc_params = ex_params, tc_tiles = [], tc_obst = n\<rparr>"

definition ex_node :: Node where
  "ex_node = \<lparr>worldPosition = (1, 2, 3), unitScale = True\<rparr>"

section \<open>What the obstacle operations leave alone\<close>

definition static_part ::
  "'o DynamicNavigationMesh \<Rightarrow>
     dtCompressedTile list option \<times> dtTileCacheParams option \<times> dtNavMeshParams option \<times>
     uint32 \<times> int \<times> int" where
  "static_part s =
     (map_option tc_tiles (tileCache s), map_option tc_params (tileCache s),
      map_option nm_params (navMesh s), maxLayers s, numTilesX s, numTilesZ s)"

text \<open>
  \<open>empty_at x z s\<close>: the mesh has a navmesh and a cache, and the cache holds no layer for
  the tile \<open>(x, z)\<close>.
\<close>

definition empty_at :: "int \<Rightarrow> int \<Rightarrow> 'o DynamicNavigationMesh \<Rightarrow> bool" where
  "empty_at x z s =
     (navMesh s \<noteq> None \<and>
      (case tileCache s of None \<Rightarrow> False | Some tc \<Rightarrow> filter (tile_at x z) (tc_tiles tc) = []))"

text \<open>
  \<open>few_at x z n ts\<close>: the tiles \<open>ts\<close> hold at most \<open>n\<close> layers of the tile \<open>(x, z)\<close>, each under
  a handle that is not the null handle.
\<close>

definition few_at :: "int \<Rightarrow> int \<Rightarrow> nat \<Rightarrow> dtCompressedTile list \<Rightarrow> bool" where
  "few_at x z n ts =
     (length (filter (tile_at x z) ts) \<le> n \<and>
      (\<forall>t\<in>set (filter (tile_at x z) ts). ct_ref t \<noteq> 0))"

section \<open>More concrete inputs\<close>

definition ex_bbox :: BoundingBox where
  "ex_bbox = \<lparr>bb_min = (0, 0, 0), bb_max = (0x41200000, 0, 0x41200000)\<rparr>"

definition ex_geometry :: NavigationGeometryInfo where
  "ex_geometry = \<lparr>gi_boundingBox = ex_bbox\<rparr>"

definition ex_detour_fail :: "nat Detour" where
  "ex_detour_fail = ex_detour\<lparr>dtNavMesh_init := (\<lambda>p. False), collect_geometries := [ex_geometry]\<rparr>"

definition ex_connection :: OffMeshConnection where
  "ex_connection =
     \<lparr>oc_node = \<lparr>worldPosition = (0x447A0000, 0, 0x447A0000), unitScale = True\<rparr>,
      endPoint = Some \<lparr>worldPosition = (0x44FA0000, 0, 0x44FA0000), unitScale = True\<rparr>,
      oc_radius = float_one, mask = 1, areaID = 1, bidirectional = True,
      oc_enabledEffective = True\<rparr>"

definition ex_create_params :: dtNavMeshCreateParams where
  "ex_create_params =
     \<lparr>polyCount = 0, cp_bmin = (0, 0, 0), cp_bmax = (0x41200000, 0, 0x41200000),
      offMeshConCount = 0, offMeshConVerts = [], offMeshConRad = [], offMeshConFlags = [],
      offMeshConAreas = [], offMeshConDir = []\<rparr>"

definition ex_process :: MeshProcess where
  "ex_process = \<lparr>offMeshVertices = [], offMeshRadii = [], offMeshFlags = [], offMeshAreas = [],
      offMeshDir = []\<rparr>"

definition ex_layer :: rcHeightfieldLayer where
  "ex_layer = \<lparr>l_bmin = (0, 0, 0), l_bmax = (0x41200000, 0, 0x41200000), l_width = 64,
      l_height = 64, l_minx = 0, l_maxx = 63, l_miny = 0, l_maxy = 63, l_hmin = 0, l_hmax = 1,
      l_grid = []\<rparr>"

definition ex_detour_geo :: "nat Detour" where
  "ex_detour_geo = ex_detour
     \<lparr>collect_geometries := [ex_geometry],
      GetTileGeometry := (\<lambda>g x z. if x = 0 then ([(0, 0, 0), (1, 0, 0), (0, 0, 1)], [0, 1, 2]) else ([], [])),
      rc_layers := (\<lambda>g x z. Inr [ex_layer]),
      compress := (\<lambda>l. Some [1, 2, 3]),
      rcCalcGridSize := (\<lambda>b cs. (128, 64))\<rparr>"

definition ex_navmesh :: dtNavMesh where
  "ex_navmesh =
     \<lparr>nm_params = \<lparr>nmp_orig = (0, 0, 0), nmp_tileWidth = 0, nmp_tileHeight = 0,
                    nmp_maxTiles = 8, nmp_maxPolys = 524288\<rparr>,
      nm_tiles = []\<rparr>"


definition ex_tile_a :: dtCompressedTile where
  "ex_tile_a = \<lparr>ct_ref = 1, ct_data = header_image 0 0 0 ex_layer @ [1, 2, 3]\<rparr>"

definition ex_tile_b :: dtCompressedTile where
  "ex_tile_b = \<lparr>ct_ref = 2, ct_data = header_image 1 0 0 ex_layer @ [4, 5, 6]\<rparr>"

definition ex_cache2 :: "nat dtTileCache" where
  "ex_cache2 = \<lparr>tc_params = ex_params, tc_tiles = [ex_tile_b, ex_tile_a], tc_obst = 0\<rparr>"

definition ex_collision :: "nat DynamicNavigationMesh" where
  "ex_collision =
     (ex_mesh (Some ex_cache2))\<lparr>navMesh := Some (ex_navmesh\<lparr>nm_tiles := [((0, 0, 0), 2)]\<rparr>)\<rparr>"


section \<open>Properties: LinearAllocator\<close>

lemma scast_nonneg: "0 \<le> sint (w :: 32 word) \<Longrightarrow> unat (scast w :: 64 word) = nat (sint w)"
proof -
  assume a: "0 \<le> sint w"
  have b: "sint w < 2 ^ 31" using sint_lt [of w] by simp
  have "uint (scast w :: 64 word) = sint w mod 2 ^ 64"
    unfolding scast_eq uint_word_of_int by simp
  also have "\<dots> = sint w" using a b by (intro mod_pos_pos_trivial) auto
  finally have "uint (scast w :: 64 word) = sint w" .
  then show ?thesis by (metis unat_eq_nat_uint)
qed

lemma sint_ucast_small:
  "unat (x :: 64 word) < 2147483648 \<Longrightarrow> sint (ucast x :: 32 word) = int (unat x)"
proof -
  assume a: "unat x < 2147483648"
  have u: "uint x < 2147483648" using a unfolding unat_eq_nat_uint by linarith
  have "sint (ucast x :: 32 word) = signed_take_bit 31 (uint x)"
    using signed_ucast_eq [where 'c = 32 and w = x and 'a = int] by simp
  also have "\<dots> = uint x"
  proof (rule signed_take_bit_int_eq_self)
    have "(0::int) \<le> uint x" by (rule uint_nonnegative)
    moreover have "- (2 ^ 31 :: int) \<le> 0" by simp
    ultimately show "- (2 ^ 31) \<le> uint x" by (rule order_trans [rotated])
    show "uint x < 2 ^ 31" using u by simp
  qed
  finally show ?thesis unfolding uint_nat .
qed

lemma alloc_sum_small:
  assumes inv: "la_inv la" and ok: "\<not> (scast (capacity la) :: 64 word) < scast (top_a la) + sz"
  shows "unat (scast (top_a la) + sz :: 64 word) \<le> nat (sint (capacity la))"
    and "unat (scast (top_a la) + sz :: 64 word) < 2147483648"
proof -
  from inv have c: "0 \<le> sint (capacity la)" by (simp add: la_inv_def)
  from ok have "scast (top_a la) + sz \<le> (scast (capacity la) :: 64 word)" by simp
  then have "unat (scast (top_a la) + sz :: 64 word) \<le> unat (scast (capacity la) :: 64 word)"
    by (simp add: word_le_nat_alt)
  then show le: "unat (scast (top_a la) + sz :: 64 word) \<le> nat (sint (capacity la))"
    by (simp add: scast_nonneg [OF c])
  have "sint (capacity la) < 2 ^ 31" using sint_lt [of "capacity la"] by simp
  then have "nat (sint (capacity la)) < 2147483648" using c by simp
  with le show "unat (scast (top_a la) + sz :: 64 word) < 2147483648" by simp
qed

text \<open>
  The invariant \<open>0 \<le> top \<le> capacity\<close> survives every operation, whatever the size asked
  for: when the 64-bit sum wraps and the request is granted, the new \<open>top\<close> is the
  wrapped sum, which is at most \<open>capacity\<close>.
\<close>

lemma alloc_inv: "la_inv la \<Longrightarrow> la_inv (snd (alloc la sz))"
proof -
  assume inv: "la_inv la"
  show ?thesis
  proof (cases "buffer la \<and> \<not> (scast (capacity la) :: 64 word) < scast (top_a la) + sz")
    case True
    then have ok: "\<not> (scast (capacity la) :: 64 word) < scast (top_a la) + sz" by simp
    note s = alloc_sum_small [OF inv ok]
    have e: "sint (ucast (scast (top_a la) + sz :: 64 word) :: 32 word) =
          int (unat (scast (top_a la) + sz :: 64 word))"
      by (rule sint_ucast_small [OF s(2)])
    have "0 \<le> sint (ucast (scast (top_a la) + sz :: 64 word) :: 32 word) \<and>
          sint (ucast (scast (top_a la) + sz :: 64 word) :: 32 word) \<le> sint (capacity la)"
      unfolding e using s(1) inv [unfolded la_inv_def] by (intro conjI) linarith+
    with True show ?thesis by (simp add: alloc_def la_inv_def)
  next
    case False
    with inv show ?thesis by (auto simp: alloc_def)
  qed
qed

lemma reset_inv: "0 \<le> sint (capacity la) \<Longrightarrow> la_inv (reset la)"
  by (simp add: la_inv_def reset_def)

lemma reset_top: "top_a (reset la) = 0 \<and> sint (top_a la) \<le> sint (high (reset la))"
  by (simp add: reset_def)

lemma free_id: "free la p = la"
  by (simp add: free_def)

text \<open>
  For a request whose sum \<open>top + size\<close> stays below \<open>2^64\<close> nothing wraps, and \<^verbatim>\<open>alloc\<close>
  is the bump allocator one expects: it grants the request exactly when the buffer exists
  and \<open>top + size \<le> capacity\<close>, and then \<open>top\<close> advances by \<open>size\<close>.
\<close>

lemma alloc_exact:
  assumes inv: "la_inv la" and small: "sint (top_a la) + int (unat sz) < 2 ^ 64"
  shows "(fst (alloc la sz) \<noteq> None) =
           (buffer la \<and> sint (top_a la) + int (unat sz) \<le> sint (capacity la))"
    and "fst (alloc la sz) \<noteq> None \<Longrightarrow>
           sint (top_a (snd (alloc la sz))) = sint (top_a la) + int (unat sz)"
proof -
  from inv have t: "0 \<le> sint (top_a la)" and c: "0 \<le> sint (capacity la)"
    by (simp_all add: la_inv_def)
  have ut: "unat (scast (top_a la) :: 64 word) = nat (sint (top_a la))" by (rule scast_nonneg [OF t])
  have "int (nat (sint (top_a la)) + unat sz) < 2 ^ 64" using small t by simp
  then have "nat (sint (top_a la)) + unat sz < 2 ^ 64"
    by (metis of_nat_less_numeral_power_cancel_iff)
  then have "unat (scast (top_a la) :: 64 word) + unat sz < 2 ^ LENGTH(64)"
    unfolding ut by simp
  from iffD1 [OF unat_add_lem this]
  have sum: "unat (scast (top_a la) + sz :: 64 word) = nat (sint (top_a la)) + unat sz"
    unfolding ut .
  have cmp: "((scast (capacity la) :: 64 word) < scast (top_a la) + sz) =
             (sint (capacity la) < sint (top_a la) + int (unat sz))"
    unfolding word_less_nat_alt sum scast_nonneg [OF c] using t c by linarith
  show "(fst (alloc la sz) \<noteq> None) =
           (buffer la \<and> sint (top_a la) + int (unat sz) \<le> sint (capacity la))"
    by (auto simp: alloc_def cmp)
  assume "fst (alloc la sz) \<noteq> None"
  then have b: "buffer la" and ok: "\<not> (scast (capacity la) :: 64 word) < scast (top_a la) + sz"
    by (auto simp: alloc_def split: if_splits)
  note s = alloc_sum_small [OF inv ok]
  have "sint (ucast (scast (top_a la) + sz :: 64 word) :: 32 word) =
        int (unat (scast (top_a la) + sz :: 64 word))"
    by (rule sint_ucast_small [OF s(2)])
  also have "\<dots> = sint (top_a la) + int (unat sz)"
    unfolding sum using t by simp
  finally show "sint (top_a (snd (alloc la sz))) = sint (top_a la) + int (unat sz)"
    using b ok by (simp add: alloc_def)
qed

lemma alloc_shape:
  "alloc la sz = (None, la) \<or>
   (\<exists>t. alloc la sz = (Some (top_a la), la\<lparr>top_a := t\<rparr>))"
  by (auto simp: alloc_def)

lemma reset_high:
  "sint (high (reset la)) = max (sint (high la)) (sint (top_a la)) \<and>
   buffer (reset la) = buffer la \<and> capacity (reset la) = capacity la"
  by (simp add: reset_def max_def)

text \<open>
  C9, as the claim states it (\<^verbatim>\<open>alloc\<close> returns a non-null pointer if and only if the buffer
  exists and \<open>top + size \<le> capacity\<close>, and then advances \<open>top\<close> by exactly \<open>size\<close>): with a
  buffer of capacity 32000 and \<open>top = 10\<close>, a request for \<open>2^64 - 5\<close> bytes is granted,
  because the sum wraps to 5 in \<^verbatim>\<open>size_t\<close>. The pointer returned is \<^verbatim>\<open>&buffer[10]\<close> and \<open>top\<close>
  goes back to 5, although \<open>top + size\<close> is far above the capacity.
\<close>

theorem C9_counterexample:
  "la_inv \<lparr>buffer = True, capacity = 32000, top_a = 10, high = 0\<rparr> \<and>
   alloc \<lparr>buffer = True, capacity = 32000, top_a = 10, high = 0\<rparr> 18446744073709551611 =
     (Some 10, \<lparr>buffer = True, capacity = 32000, top_a = 5, high = 0\<rparr>) \<and>
   sint (capacity \<lparr>buffer = True, capacity = 32000, top_a = 10, high = 0\<rparr>) <
     sint (top_a \<lparr>buffer = True, capacity = 32000, top_a = 10, high = 0\<rparr>) +
       int (unat (18446744073709551611 :: 64 word))"
  by (simp add: alloc_def la_inv_def)

text \<open>
  C9, amended: the invariant \<open>0 \<le> top \<le> capacity\<close> survives \<^verbatim>\<open>alloc\<close> (of any size),
  \<^verbatim>\<open>reset\<close> and \<^verbatim>\<open>free\<close>. For a request whose sum \<open>top + size\<close> does not wrap in \<^verbatim>\<open>size_t\<close>
  (it is below \<open>2^64\<close>), \<^verbatim>\<open>alloc\<close> returns a non-null pointer if and only if the buffer exists
  and \<open>top + size \<le> capacity\<close>, and then \<open>top\<close> advances by exactly \<open>size\<close>. The pointer
  granted is \<^verbatim>\<open>&buffer[top]\<close>; a refused request changes nothing; \<^verbatim>\<open>alloc\<close> never touches
  the buffer, the capacity or the high-water mark. \<^verbatim>\<open>reset\<close> sets \<open>top\<close> to 0 and the
  high-water mark to the larger of its old value and the old \<open>top\<close>. \<^verbatim>\<open>free\<close> changes
  nothing.
\<close>

theorem C9_LinearAllocator:
  assumes inv: "la_inv la"
  shows "la_inv (snd (alloc la sz)) \<and> la_inv (reset la) \<and> la_inv (free la p) \<and>
         (sint (top_a la) + int (unat sz) < 2 ^ 64 \<longrightarrow>
            ((fst (alloc la sz) \<noteq> None) =
               (buffer la \<and> sint (top_a la) + int (unat sz) \<le> sint (capacity la))) \<and>
            (fst (alloc la sz) \<noteq> None \<longrightarrow>
               sint (top_a (snd (alloc la sz))) = sint (top_a la) + int (unat sz))) \<and>
         (fst (alloc la sz) \<noteq> None \<longrightarrow> fst (alloc la sz) = Some (top_a la)) \<and>
         (fst (alloc la sz) = None \<longrightarrow> snd (alloc la sz) = la) \<and>
         buffer (snd (alloc la sz)) = buffer la \<and>
         capacity (snd (alloc la sz)) = capacity la \<and>
         high (snd (alloc la sz)) = high la \<and>
         top_a (reset la) = 0 \<and>
         sint (high (reset la)) = max (sint (high la)) (sint (top_a la)) \<and>
         buffer (reset la) = buffer la \<and> capacity (reset la) = capacity la \<and>
         free la p = la"
proof -
  from inv have c: "0 \<le> sint (capacity la)" by (simp add: la_inv_def)
  have 1: "la_inv (snd (alloc la sz))" by (rule alloc_inv [OF inv])
  have 2: "la_inv (reset la)" by (rule reset_inv [OF c])
  have 3: "la_inv (free la p)" using inv by (simp add: free_def)
  have 4: "sint (top_a la) + int (unat sz) < 2 ^ 64 \<longrightarrow>
            ((fst (alloc la sz) \<noteq> None) =
               (buffer la \<and> sint (top_a la) + int (unat sz) \<le> sint (capacity la))) \<and>
            (fst (alloc la sz) \<noteq> None \<longrightarrow>
               sint (top_a (snd (alloc la sz))) = sint (top_a la) + int (unat sz))"
    using alloc_exact [OF inv, of sz] by blast
  have 5: "(fst (alloc la sz) \<noteq> None \<longrightarrow> fst (alloc la sz) = Some (top_a la)) \<and>
         (fst (alloc la sz) = None \<longrightarrow> snd (alloc la sz) = la) \<and>
         buffer (snd (alloc la sz)) = buffer la \<and>
         capacity (snd (alloc la sz)) = capacity la \<and>
         high (snd (alloc la sz)) = high la"
    using alloc_shape [of la sz] by auto
  have 6: "top_a (reset la) = 0" by (simp add: reset_def)
  have 7: "sint (high (reset la)) = max (sint (high la)) (sint (top_a la)) \<and>
           buffer (reset la) = buffer la \<and> capacity (reset la) = capacity la"
    by (rule reset_high)
  have 8: "free la p = la" by (simp add: free_def)
  from 1 2 3 4 5 6 7 8 show ?thesis by simp
qed

theorem C9_LinearAllocator_witness:
  "la_inv \<lparr>buffer = True, capacity = 32000, top_a = 10, high = 0\<rparr> \<and>
   sint (top_a \<lparr>buffer = True, capacity = 32000, top_a = 10, high = 0\<rparr>) +
     int (unat (100 :: 64 word)) < 2 ^ 64 \<and>
   fst (alloc \<lparr>buffer = True, capacity = 32000, top_a = 10, high = 0\<rparr> 100) \<noteq> None \<and>
   sint (top_a (snd (alloc \<lparr>buffer = True, capacity = 32000, top_a = 10, high = 0\<rparr> 100))) = 110 \<and>
   la_inv (snd (alloc \<lparr>buffer = True, capacity = 32000, top_a = 10, high = 0\<rparr> 100)) \<and>
   fst (alloc \<lparr>buffer = True, capacity = 32000, top_a = 10, high = 0\<rparr> 31991) = None \<and>
   top_a (reset \<lparr>buffer = True, capacity = 32000, top_a = 10, high = 0\<rparr>) = 0 \<and>
   sint (high (reset \<lparr>buffer = True, capacity = 32000, top_a = 10, high = 0\<rparr>)) = 10"
proof -
  define la where "la = \<lparr>buffer = True, capacity = 32000, top_a = 10, high = 0\<rparr>"
  have inv: "la_inv la" by (simp add: la_def la_inv_def)
  have b1: "sint (top_a la) + int (unat (100 :: 64 word)) < 2 ^ 64" by (simp add: la_def)
  have b2: "sint (top_a la) + int (unat (31991 :: 64 word)) < 2 ^ 64" by (simp add: la_def)
  note t1 = C9_LinearAllocator [OF inv, of 100 None]
  note t2 = C9_LinearAllocator [OF inv, of 31991 None]
  have v: "sint (top_a la) = 10" "sint (capacity la) = 32000" "buffer la" "sint (high la) = 0"
    by (simp_all add: la_def)
  from t1 b1 v have a1: "fst (alloc la 100) \<noteq> None" by simp
  from t1 b1 a1 v have a2: "sint (top_a (snd (alloc la 100))) = 110" by simp
  from t1 have a3: "la_inv (snd (alloc la 100))" by simp
  from t2 b2 v have a4: "fst (alloc la 31991) = None" by simp
  from t1 v have a5: "top_a (reset la) = 0" "sint (high (reset la)) = 10" by simp_all
  from inv b1 a1 a2 a3 a4 a5 show ?thesis unfolding la_def by simp
qed


section \<open>Properties: obstacles\<close>

lemma wait_not_full:
  "\<not> isObstacleQueueFull d (tc_obst tc) \<Longrightarrow> wait_for_requests d tc nm = Some (tc, nm)"
  by (subst wait_for_requests.simps) simp

lemma ex_wait: "wait_for_requests ex_detour (ex_cache 2) None = Some (ex_cache 0, None)"
  apply (subst wait_for_requests.simps)
  apply (simp add: ex_detour_def ex_cache_def)
  apply (subst wait_for_requests.simps)
  apply simp
  done

text \<open>
  C10: when the tile cache pointer is null, \<^verbatim>\<open>AddObstacle\<close>, \<^verbatim>\<open>RemoveObstacle\<close> and
  \<^verbatim>\<open>ObstacleChanged\<close> return at once: the mesh (with its notification sink and its error log)
  and the obstacle (with its handle) are what they were.
\<close>

theorem C10_null_cache_noop:
  "tileCache s = None \<Longrightarrow>
     AddObstacle d s ob silent = Some (Inr (s, ob)) \<and>
     RemoveObstacle d s ob silent = Some (Inr (s, ob)) \<and>
     ObstacleChanged d s ob = Some (Inr (s, ob))"
  by (simp add: AddObstacle_def RemoveObstacle_def ObstacleChanged_def)

theorem C10_null_cache_noop_witness:
  "tileCache (ex_mesh None) = None \<and>
   AddObstacle ex_detour (ex_mesh None) (ex_obstacle 5 None) False =
     Some (Inr (ex_mesh None, ex_obstacle 5 None)) \<and>
   RemoveObstacle ex_detour (ex_mesh None) (ex_obstacle 5 None) False =
     Some (Inr (ex_mesh None, ex_obstacle 5 None)) \<and>
   ObstacleChanged ex_detour (ex_mesh None) (ex_obstacle 5 None) =
     Some (Inr (ex_mesh None, ex_obstacle 5 None))"
proof -
  have h: "tileCache (ex_mesh None) = None" by (simp add: ex_mesh_def)
  show ?thesis using h C10_null_cache_noop [OF h] by simp
qed

text \<open>
  C7: \<^verbatim>\<open>RemoveObstacle\<close> on an obstacle whose handle is zero changes nothing. With a cache, a
  non-zero handle and a wait loop that ends, it returns: when the cache's
  \<^verbatim>\<open>removeObstacle\<close> succeeds the obstacle's handle is zero afterwards, whether or not the
  obstacle still has a node and whatever \<open>silent\<close> is; when it fails the obstacle is
  unchanged, handle included.
\<close>

theorem C7_RemoveObstacle_handle:
  "(obstacleId ob = 0 \<longrightarrow> RemoveObstacle d s ob silent = Some (Inr (s, ob))) \<and>
   (tileCache s = Some tc \<and> obstacleId ob \<noteq> 0 \<and>
    wait_for_requests d tc (navMesh s) = Some (tc1, nm1) \<longrightarrow>
      (if fst (removeObstacle d (tc_obst tc1) (obstacleId ob))
       then \<exists>s'. RemoveObstacle d s ob silent = Some (Inr (s', ob\<lparr>obstacleId := 0\<rparr>))
       else \<exists>s'. RemoveObstacle d s ob silent = Some (Inr (s', ob))))"
  by (auto simp: RemoveObstacle_def Let_def split: prod.splits option.splits)

theorem C7_RemoveObstacle_handle_witness:
  "RemoveObstacle ex_detour (ex_mesh (Some (ex_cache 2))) (ex_obstacle 0 None) False =
     Some (Inr (ex_mesh (Some (ex_cache 2)), ex_obstacle 0 None)) \<and>
   (\<exists>s'. RemoveObstacle ex_detour (ex_mesh (Some (ex_cache 2))) (ex_obstacle 5 None) False =
       Some (Inr (s', (ex_obstacle 5 None)\<lparr>obstacleId := 0\<rparr>))) \<and>
   (\<exists>s'. RemoveObstacle ex_detour (ex_mesh (Some (ex_cache 2))) (ex_obstacle 99 (Some ex_node)) True =
       Some (Inr (s', ex_obstacle 99 (Some ex_node))))"
proof -
  have c: "tileCache (ex_mesh (Some (ex_cache 2))) = Some (ex_cache 2)"
    and n: "navMesh (ex_mesh (Some (ex_cache 2))) = None"
    by (simp_all add: ex_mesh_def)
  have w: "wait_for_requests ex_detour (ex_cache 2) (navMesh (ex_mesh (Some (ex_cache 2)))) =
             Some (ex_cache 0, None)"
    unfolding n by (rule ex_wait)
  have r5: "fst (removeObstacle ex_detour (tc_obst (ex_cache 0)) (obstacleId (ex_obstacle 5 None)))"
    by (simp add: ex_detour_def ex_obstacle_def)
  have r99: "\<not> fst (removeObstacle ex_detour (tc_obst (ex_cache 0))
                      (obstacleId (ex_obstacle 99 (Some ex_node))))"
    by (simp add: ex_detour_def ex_obstacle_def)
  have i0: "obstacleId (ex_obstacle 0 None) = 0"
    and i5: "obstacleId (ex_obstacle 5 None) \<noteq> 0"
    and i99: "obstacleId (ex_obstacle 99 (Some ex_node)) \<noteq> 0"
    by (simp_all add: ex_obstacle_def)
  from C7_RemoveObstacle_handle
         [of "ex_obstacle 0 None" ex_detour "ex_mesh (Some (ex_cache 2))" False] i0
  have a: "RemoveObstacle ex_detour (ex_mesh (Some (ex_cache 2))) (ex_obstacle 0 None) False =
             Some (Inr (ex_mesh (Some (ex_cache 2)), ex_obstacle 0 None))"
    by blast
  from C7_RemoveObstacle_handle
         [of "ex_obstacle 5 None" ex_detour "ex_mesh (Some (ex_cache 2))" False
             "ex_cache 2" "ex_cache 0" None] c w i5 r5
  have b: "\<exists>s'. RemoveObstacle ex_detour (ex_mesh (Some (ex_cache 2))) (ex_obstacle 5 None) False =
             Some (Inr (s', (ex_obstacle 5 None)\<lparr>obstacleId := 0\<rparr>))"
    by presburger
  from C7_RemoveObstacle_handle
         [of "ex_obstacle 99 (Some ex_node)" ex_detour "ex_mesh (Some (ex_cache 2))" True
             "ex_cache 2" "ex_cache 0" None] c w i99 r99
  have e: "\<exists>s'. RemoveObstacle ex_detour (ex_mesh (Some (ex_cache 2)))
                  (ex_obstacle 99 (Some ex_node)) True =
             Some (Inr (s', ex_obstacle 99 (Some ex_node)))"
    by presburger
  from a b e show ?thesis by blast
qed

lemma RemoveObstacle_silent_events:
  "RemoveObstacle d s ob True = Some (Inr (s', ob')) \<Longrightarrow> events s' = events s"
  by (auto simp: RemoveObstacle_def Let_def split: option.splits prod.splits if_splits)

lemma AddObstacle_silent_events:
  "AddObstacle d s ob True = Some (Inr (s', ob')) \<Longrightarrow> events s' = events s"
  by (auto simp: AddObstacle_def Let_def split: option.splits prod.splits if_splits)

lemma ex_changed:
  "ObstacleChanged ex_detour (ex_mesh (Some (ex_cache 0))) (ex_obstacle 5 (Some ex_node)) =
     Some (Inr (ex_mesh (Some (ex_cache 2)), ex_obstacle 7 (Some ex_node)))"
  by (simp add: ObstacleChanged_def RemoveObstacle_def AddObstacle_def bind_r_def wait_not_full
      ex_detour_def ex_mesh_def ex_cache_def ex_obstacle_def ex_node_def)

lemma ex_changed_spec:
  "ObstacleChanged_spec ex_detour (ex_mesh (Some (ex_cache 0))) (ex_obstacle 5 (Some ex_node)) =
     Some (Inr ((ex_mesh (Some (ex_cache 2)))\<lparr>events := [E_NAVIGATION_OBSTACLE_ADDED (1, 2, 3) 1 2]\<rparr>,
        ex_obstacle 7 (Some ex_node)))"
  by (simp add: ObstacleChanged_spec_def RemoveObstacle_def AddObstacle_def bind_r_def wait_not_full
      ex_detour_def ex_mesh_def ex_cache_def ex_obstacle_def ex_node_def)

text \<open>
  C8, as the claim states it: \<^verbatim>\<open>ObstacleChanged\<close> would be the silent removal followed by the
  normal, non-silent add (\<open>ObstacleChanged_spec\<close>). On a registered obstacle the two differ:
  the code sends no notification, the claim's version sends the obstacle-added one.
\<close>

theorem C8_counterexample:
  "ObstacleChanged ex_detour (ex_mesh (Some (ex_cache 0))) (ex_obstacle 5 (Some ex_node)) \<noteq>
   ObstacleChanged_spec ex_detour (ex_mesh (Some (ex_cache 0))) (ex_obstacle 5 (Some ex_node))"
  unfolding ex_changed ex_changed_spec by (simp add: ex_mesh_def)

text \<open>
  C8, amended: \<^verbatim>\<open>ObstacleChanged\<close> is \<^verbatim>\<open>RemoveObstacle\<close> followed by \<^verbatim>\<open>AddObstacle\<close> on the same
  obstacle, both silent; whenever it returns, the notification sink is what it was.
\<close>

theorem C8_ObstacleChanged_silent:
  "ObstacleChanged d s ob =
     bind_r (RemoveObstacle d s ob True) (\<lambda>(s1, ob1). AddObstacle d s1 ob1 True) \<and>
   (\<forall>s' ob'. ObstacleChanged d s ob = Some (Inr (s', ob')) \<longrightarrow> events s' = events s)"
proof
  show eq: "ObstacleChanged d s ob =
     bind_r (RemoveObstacle d s ob True) (\<lambda>(s1, ob1). AddObstacle d s1 ob1 True)"
    by (cases "tileCache s")
       (simp_all add: ObstacleChanged_def RemoveObstacle_def AddObstacle_def bind_r_def)
  show "\<forall>s' ob'. ObstacleChanged d s ob = Some (Inr (s', ob')) \<longrightarrow> events s' = events s"
  proof (intro allI impI)
    fix s' ob'
    assume r: "ObstacleChanged d s ob = Some (Inr (s', ob'))"
    from r eq obtain s1 ob1 where
      a: "RemoveObstacle d s ob True = Some (Inr (s1, ob1))" and
      b: "AddObstacle d s1 ob1 True = Some (Inr (s', ob'))"
      by (auto simp: bind_r_def split: option.splits sum.splits)
    from RemoveObstacle_silent_events [OF a] AddObstacle_silent_events [OF b]
    show "events s' = events s" by simp
  qed
qed

theorem C8_ObstacleChanged_silent_witness:
  "ObstacleChanged ex_detour (ex_mesh (Some (ex_cache 0))) (ex_obstacle 5 (Some ex_node)) =
     bind_r (RemoveObstacle ex_detour (ex_mesh (Some (ex_cache 0))) (ex_obstacle 5 (Some ex_node)) True)
       (\<lambda>(s1, ob1). AddObstacle ex_detour s1 ob1 True) \<and>
   (\<exists>s' ob'. ObstacleChanged ex_detour (ex_mesh (Some (ex_cache 0))) (ex_obstacle 5 (Some ex_node)) =
       Some (Inr (s', ob')) \<and> events s' = events (ex_mesh (Some (ex_cache 0))))"
proof -
  note t = C8_ObstacleChanged_silent
             [of ex_detour "ex_mesh (Some (ex_cache 0))" "ex_obstacle 5 (Some ex_node)"]
  from t have e: "events (ex_mesh (Some (ex_cache 2))) = events (ex_mesh (Some (ex_cache 0)))"
    using ex_changed by blast
  from t e ex_changed show ?thesis by blast
qed

lemma wait_static_aux:
  assumes a: "wait_for_requests d tc nm = Some y"
  shows "tc_tiles (fst y) = tc_tiles tc \<and> tc_params (fst y) = tc_params tc \<and>
         map_option nm_params (snd y) = map_option nm_params nm"
  apply (rule wait_for_requests.raw_induct
           [where P = "\<lambda>d tc nm y. tc_tiles (fst y) = tc_tiles tc \<and> tc_params (fst y) = tc_params tc \<and>
                                  map_option nm_params (snd y) = map_option nm_params nm", OF _ a])
  subgoal premises prems for w d tc nm y
  proof (cases "isObstacleQueueFull d (tc_obst tc)")
    case True
    obtain ob ts where u: "update d float_one tc nm = (ob, ts)" by (cases "update d float_one tc nm")
    from prems(2) True u
    have r: "w d (tc\<lparr>tc_obst := ob\<rparr>) (map_option (set_tiles ts) nm) = Some y"
      by simp
    have "tc_tiles (fst y) = tc_tiles (tc\<lparr>tc_obst := ob\<rparr>) \<and>
          tc_params (fst y) = tc_params (tc\<lparr>tc_obst := ob\<rparr>) \<and>
          map_option nm_params (snd y) = map_option nm_params (map_option (set_tiles ts) nm)"
      by (rule prems(1) [OF r])
    then show ?thesis
      by (cases nm) (simp_all add: set_tiles_def)
  next
    case False
    with prems(2) show ?thesis by auto
  qed
  done

lemma wait_static:
  "wait_for_requests d tc nm = Some (tc', nm') \<Longrightarrow>
     tc_tiles tc' = tc_tiles tc \<and> tc_params tc' = tc_params tc \<and>
     map_option nm_params nm' = map_option nm_params nm"
  using wait_static_aux [of d tc nm "(tc', nm')"] by simp

lemma AddObstacle_static:
  "AddObstacle d s ob silent = Some (Inr (s', ob')) \<Longrightarrow> static_part s' = static_part s"
  by (auto simp: AddObstacle_def Let_def static_part_def
           split: option.splits prod.splits if_splits dest!: wait_static)

lemma AddObstacles_static:
  "AddObstacles d s obs = Some (Inr (s', obs')) \<Longrightarrow> static_part s' = static_part s"
proof (induction obs arbitrary: s s' obs')
  case Nil
  then show ?case by simp
next
  case (Cons ob obs)
  show ?case
  proof (cases "enabledEffective ob")
    case True
    with Cons.prems obtain s1 ob1 s2 obs2 where
      a: "AddObstacle d s ob False = Some (Inr (s1, ob1))" and
      b: "AddObstacles d s1 obs = Some (Inr (s2, obs2))" and c: "s' = s2"
      by (auto simp: bind_r_def split: option.splits sum.splits prod.splits)
    from AddObstacle_static [OF a] Cons.IH [OF b] c show ?thesis by simp
  next
    case False
    with Cons.prems obtain s2 obs2 where
      b: "AddObstacles d s obs = Some (Inr (s2, obs2))" and c: "s' = s2"
      by (auto simp: bind_r_def split: option.splits sum.splits prod.splits)
    from Cons.IH [OF b] c show ?thesis by simp
  qed
qed

lemma scan_obstacles_static:
  "scan_obstacles d s = Some (Inr s') \<Longrightarrow> static_part s' = static_part s"
  by (auto simp: scan_obstacles_def bind_r_def static_part_def
           split: option.splits sum.splits prod.splits dest!: AddObstacles_static)

section \<open>Properties: allocation and the full build\<close>

lemma npot_pow2:
  "p = 2 ^ j \<Longrightarrow> p < 2 * v \<Longrightarrow> \<exists>k. npot p v = 2 ^ k \<and> v \<le> 2 ^ k \<and> 2 ^ k < 2 * v"
proof (induction p v arbitrary: j rule: npot.induct)
  case (1 p v)
  show ?case
  proof (cases "v \<le> p \<or> p = 0")
    case True
    with 1(2) have "v \<le> p" by simp
    with 1(2,3) True show ?thesis by (subst npot.simps) auto
  next
    case False
    then have lt: "p < v" and nz: "p \<noteq> 0" by simp_all
    have "2 * p = 2 ^ Suc j" using 1(2) by simp
    moreover have "2 * p < 2 * v" using lt by simp
    ultimately obtain k where "npot (2 * p) v = 2 ^ k \<and> v \<le> 2 ^ k \<and> 2 ^ k < 2 * v"
      using 1(1) [OF False] by blast
    with False show ?thesis by (subst npot.simps) auto
  qed
qed

lemma ilog2_pow2: "ilog2 (2 ^ k) = k"
proof (induction k)
  case 0
  then show ?case by simp
next
  case (Suc k)
  have "\<not> (2::nat) ^ Suc k < 2" by (simp add: not_less)
  then show ?case using Suc by (subst ilog2.simps) simp
qed


lemma unat_of_nat_small: "n < 2 ^ 32 \<Longrightarrow> unat (word_of_nat n :: 32 word) = n"
  by (simp add: unat_of_nat)

lemma budget:
  fixes mt :: uint32
  assumes pos: "0 < mt" and le: "mt \<le> 4194304"
  shows "\<exists>k\<le>22. unat (NextPowerOfTwo mt) = 2 ^ k \<and> unat mt \<le> 2 ^ k \<and> 2 ^ k < 2 * unat mt \<and>
           unat (LogBaseTwo (NextPowerOfTwo mt)) = k \<and>
           unat (22 - LogBaseTwo (NextPowerOfTwo mt)) = 22 - k \<and>
           shl1 (22 - LogBaseTwo (NextPowerOfTwo mt)) = Some (2 ^ (22 - k))"
proof -
  have v1: "1 \<le> unat mt" using pos by (simp add: word_less_nat_alt)
  have v2: "unat mt \<le> 4194304" using le by (simp add: word_le_nat_alt)
  have "(1::nat) = 2 ^ 0" by simp
  moreover have "1 < 2 * unat mt" using v1 by simp
  ultimately obtain k where k: "npot 1 (unat mt) = 2 ^ k" "unat mt \<le> 2 ^ k" "2 ^ k < 2 * unat mt"
    using npot_pow2 [of 1 0 "unat mt"] by blast
  from k(3) v2 have h: "(2::nat) ^ k < 8388608" by simp
  have k23: "k < 23" by (rule power_less_imp_less_exp [of 2]) (use h in simp_all)
  then have k22: "k \<le> 22" by simp
  have small: "(2::nat) ^ k < 2 ^ 32"
    by (rule power_strict_increasing) (use k22 in simp_all)
  have np: "unat (NextPowerOfTwo mt) = 2 ^ k"
    unfolding NextPowerOfTwo_def k(1) by (rule unat_of_nat_small [OF small])
  have k32: "k < 2 ^ 32" using k22 by simp
  have lg: "unat (LogBaseTwo (NextPowerOfTwo mt)) = k"
    unfolding LogBaseTwo_def np ilog2_pow2 by (rule unat_of_nat_small [OF k32])
  have lgw: "LogBaseTwo (NextPowerOfTwo mt) = word_of_nat k"
    unfolding LogBaseTwo_def np ilog2_pow2 ..
  have sub: "unat (22 - LogBaseTwo (NextPowerOfTwo mt)) = 22 - k"
  proof -
    have "(22 :: uint32) - word_of_nat k = word_of_nat (22 - k)"
      using k22 by (simp add: of_nat_diff)
    moreover have "unat (word_of_nat (22 - k) :: uint32) = 22 - k"
      by (rule unat_of_nat_small) (use k22 in simp)
    ultimately show ?thesis unfolding lgw by simp
  qed
  have sh: "shl1 (22 - LogBaseTwo (NextPowerOfTwo mt)) = Some (2 ^ (22 - k))"
    unfolding shl1_def sub by (simp add: push_bit_eq_mult)
  from k22 np k(2,3) lg sub sh show ?thesis by blast
qed

lemma create_True:
  "create_mesh_and_cache d s p tp = (True, s2) \<Longrightarrow>
     \<exists>ob. s2 = s\<lparr>navMesh := Some \<lparr>nm_params = p, nm_tiles = []\<rparr>,
                  tileCache := Some \<lparr>tc_params = tp, tc_tiles = [], tc_obst = ob\<rparr>\<rparr>"
  by (auto simp: create_mesh_and_cache_def split: if_splits option.splits)

lemma create_False:
  "create_mesh_and_cache d s p tp = (False, s2) \<Longrightarrow>
     \<not> dtAllocNavMesh d \<or> \<not> dtNavMesh_init d p \<or> \<not> dtAllocTileCache d \<or> dtTileCache_init d tp = None"
  by (auto simp: create_mesh_and_cache_def split: if_splits option.splits)
lemma npot_5: "NextPowerOfTwo 5 = 8"
  by (simp add: NextPowerOfTwo_def)

lemma log_8: "LogBaseTwo 8 = 3"
  by (simp add: LogBaseTwo_def)

lemma npot_big: "NextPowerOfTwo 8388608 = 8388608"
  by (simp add: NextPowerOfTwo_def)

lemma log_big: "LogBaseTwo 8388608 = 23"
  by (simp add: LogBaseTwo_def)

lemma shl1_wrapped: "shl1 (- 1) = None"
  by (simp add: shl1_def unsigned_minus_1_eq_mask mask_eq_exp_minus_1)
text \<open>
  C2, as the claim states it (for every call): a call with \<open>maxTiles = 2^23\<close> rounds to
  \<open>2^23\<close>, so \<open>tileBits\<close> is 23, the unsigned \<open>22 - tileBits\<close> wraps and the shift
  \<^verbatim>\<open>1u << (22 - tileBits)\<close> is undefined: no polygon budget with \<open>tileBits + polyBits = 22\<close>
  exists. And a call on a mesh without a node returns false before it computes anything.
\<close>

theorem C2_counterexample:
  "Allocate ex_detour (ex_mesh None) ex_bbox 8388608 = Some (Inl UndefinedShift) \<and>
   unat (LogBaseTwo (NextPowerOfTwo 8388608)) = 23 \<and>
   Allocate ex_detour ((ex_mesh None)\<lparr>node := None\<rparr>) ex_bbox 4 =
     Some (Inr (False, release_navigation_mesh ((ex_mesh None)\<lparr>node := None\<rparr>)))"
  by (simp add: Allocate_def npot_big log_big shl1_wrapped
        release_navigation_mesh_def ex_mesh_def ex_detour_def)
text \<open>
  C2, amended: every call of \<^verbatim>\<open>Allocate\<close> with \<open>1 \<le> maxTiles \<le> 2^22\<close> that returns true leaves
  a navmesh whose \<^verbatim>\<open>maxTiles\<close> is the least power of two \<open>2^k\<close> not below the argument
  (\<open>maxTiles \<le> 2^k < 2 * maxTiles\<close>), with \<open>tileBits = k\<close>, \<open>polyBits = 22 - k\<close>,
  \<open>tileBits + polyBits = 22\<close> and \<^verbatim>\<open>maxPolys\<close> \<open>= 2^(22 - k)\<close>.
\<close>

theorem C2_Allocate_budget:
  assumes r: "Allocate d s bbox maxTiles = Some (Inr (True, s'))"
    and pos: "0 < maxTiles" and le: "maxTiles \<le> 4194304"
  shows "\<exists>nm k. navMesh s' = Some nm \<and> k \<le> 22 \<and>
           unat (nmp_maxTiles (nm_params nm)) = 2 ^ k \<and>
           unat maxTiles \<le> 2 ^ k \<and> 2 ^ k < 2 * unat maxTiles \<and>
           unat (LogBaseTwo (nmp_maxTiles (nm_params nm))) = k \<and>
           unat (22 - LogBaseTwo (nmp_maxTiles (nm_params nm))) = 22 - k \<and>
           unat (LogBaseTwo (nmp_maxTiles (nm_params nm))) +
             unat (22 - LogBaseTwo (nmp_maxTiles (nm_params nm))) = 22 \<and>
           unat (nmp_maxPolys (nm_params nm)) = 2 ^ (22 - k)"
proof -
  from budget [OF pos le] obtain k where k: "k \<le> 22"
    "unat (NextPowerOfTwo maxTiles) = 2 ^ k" "unat maxTiles \<le> 2 ^ k" "2 ^ k < 2 * unat maxTiles"
    "unat (LogBaseTwo (NextPowerOfTwo maxTiles)) = k"
    "unat (22 - LogBaseTwo (NextPowerOfTwo maxTiles)) = 22 - k"
    "shl1 (22 - LogBaseTwo (NextPowerOfTwo maxTiles)) = Some (2 ^ (22 - k))"
    by blast
  define s0 where "s0 = release_navigation_mesh s"
  define bb where "bb = Transformed d bbox"
  define s1 where "s1 = s0\<lparr>boundingBox := bb,
      numTilesX := numTiles_of (fst (rcCalcGridSize d bb (cellSize s0))) (tileSize s0),
      numTilesZ := numTiles_of (snd (rcCalcGridSize d bb (cellSize s0))) (tileSize s0)\<rparr>"
  define p where "p = \<lparr>nmp_orig = bb_min bb,
      nmp_tileWidth = tileEdgeLength d (tileSize s0) (cellSize s0),
      nmp_tileHeight = tileEdgeLength d (tileSize s0) (cellSize s0),
      nmp_maxTiles = NextPowerOfTwo maxTiles, nmp_maxPolys = 2 ^ (22 - k)\<rparr>"
  define tp where "tp = tile_cache_params s1 (bb_min bb) (NextPowerOfTwo maxTiles * maxLayers s1)"
  from r k(7) obtain s2 s3 where
    c: "create_mesh_and_cache d s1 p tp = (True, s2)" and
    o: "scan_obstacles d s2 = Some (Inr s3)" and
    e: "s' = send_event E_NAVIGATION_MESH_REBUILT s3"
    unfolding Allocate_def Let_def s0_def [symmetric] bb_def [symmetric]
    by (auto simp: s1_def p_def tp_def bind_r_def
             split: option.splits if_splits prod.splits bool.splits sum.splits)
  from create_True [OF c] have "map_option nm_params (navMesh s2) = Some p" by auto
  with scan_obstacles_static [OF o] have "map_option nm_params (navMesh s3) = Some p"
    by (simp add: static_part_def)
  with e obtain nm where nm: "navMesh s' = Some nm" "nm_params nm = p"
    by (auto simp: send_event_def)
  have mp: "unat (nmp_maxPolys p) = 2 ^ (22 - k)"
  proof -
    have lt: "(2::nat) ^ (22 - k) < 2 ^ 32" by (rule power_strict_increasing) simp_all
    have "(2 ^ (22 - k) :: uint32) = word_of_nat (2 ^ (22 - k))" by simp
    then have "unat (2 ^ (22 - k) :: uint32) = 2 ^ (22 - k)"
      using unat_of_nat_small [OF lt] by simp
    then show ?thesis by (simp add: p_def)
  qed
  show ?thesis
    apply (rule exI [of _ nm], rule exI [of _ k])
    using nm k(1-6) mp by (simp add: p_def)
qed

lemma ex_allocate:
  "\<exists>s'. Allocate ex_detour (ex_mesh None) ex_bbox 5 = Some (Inr (True, s'))"
  by (simp add: Allocate_def npot_5 log_8 shl1_def release_navigation_mesh_def ex_mesh_def
        ex_detour_def create_mesh_and_cache_def scan_obstacles_def bind_r_def Let_def)

theorem C2_Allocate_budget_witness:
  "\<exists>s' nm k. Allocate ex_detour (ex_mesh None) ex_bbox 5 = Some (Inr (True, s')) \<and>
      navMesh s' = Some nm \<and> k \<le> 22 \<and>
      unat (nmp_maxTiles (nm_params nm)) = 2 ^ k \<and> unat (5 :: uint32) \<le> 2 ^ k \<and>
      2 ^ k < 2 * unat (5 :: uint32) \<and>
      unat (LogBaseTwo (nmp_maxTiles (nm_params nm))) +
        unat (22 - LogBaseTwo (nmp_maxTiles (nm_params nm))) = 22 \<and>
      unat (nmp_maxPolys (nm_params nm)) = 2 ^ (22 - k)"
proof -
  from ex_allocate obtain s' where
    a: "Allocate ex_detour (ex_mesh None) ex_bbox 5 = Some (Inr (True, s'))" ..
  have p: "(0 :: uint32) < 5" and l: "(5 :: uint32) \<le> 4194304" by simp_all
  from C2_Allocate_budget [OF a p l] a show ?thesis by blast
qed
lemma numTiles_of_0: "numTiles_of 0 64 = 0"
  by (simp add: numTiles_of_def int32_def cdiv_def)

lemma ex_build_fail:
  "Build ex_detour_fail (ex_mesh None) =
     Some (Inr (False, release_navigation_mesh
       (add_error ''Could not initialize navigation mesh''
          ((ex_mesh None)\<lparr>boundingBox := \<lparr>bb_min = (0, 0, 0), bb_max = (0, 0, 0)\<rparr>\<rparr>))))"
  by (simp add: Build_def release_navigation_mesh_def ex_mesh_def ex_detour_fail_def ex_detour_def
        numTiles_of_0 NextPowerOfTwo_def LogBaseTwo_def shl1_def create_mesh_and_cache_def
        add_error_def Let_def)
text \<open>
  C1, as the claim states it (false only without a node): with a node and geometry, a
  navmesh whose \<^verbatim>\<open>init\<close> fails makes \<^verbatim>\<open>Build()\<close> log the error, release and return false.
\<close>

theorem C1_counterexample:
  "node (ex_mesh None) = Some \<lparr>worldPosition = (0, 0, 0), unitScale = True\<rparr> \<and>
   map_option (map_sum id fst) (Build ex_detour_fail (ex_mesh None)) = Some (Inr False)"
  unfolding ex_build_fail by (simp add: ex_mesh_def)
lemma Build_with_params:
  assumes n: "node s \<noteq> None" and g: "collect_geometries d \<noteq> []"
  shows "Build d s =
     (case Build_params d s of
        Inl f \<Rightarrow> Some (Inl f)
      | Inr (s1, p, tp) \<Rightarrow>
          (case create_mesh_and_cache d s1 p tp of
             (False, s2) \<Rightarrow> Some (Inr (False, s2))
           | (True, s2) \<Rightarrow>
               (case for_tiles (build_one d (collect_geometries d)) s2
                       (grid_coords 0 (numTilesX s1 - 1) 0 (numTilesZ s1 - 1)) of
                  Inl f \<Rightarrow> Some (Inl f)
                | Inr s3 \<Rightarrow>
                    (case cache_update d float_zero s3 of
                       Inl f \<Rightarrow> Some (Inl f)
                     | Inr s4 \<Rightarrow>
                         bind_r (scan_obstacles d (send_event E_NAVIGATION_MESH_REBUILT s4))
                           (\<lambda>s5. Some (Inr (True, s5)))))))"
proof -
  from n obtain nd where nd: "node (release_navigation_mesh s) = Some nd"
    by (auto simp: release_navigation_mesh_def)
  show ?thesis
    unfolding Build_def Build_params_def Let_def nd
    using g by (simp split: option.splits prod.splits bool.splits)
qed

lemma Build_params_log:
  "Build_params d s = Inr (s1, p, tp) \<Longrightarrow>
     errorLog s1 = errorLog s \<and> events s1 = events s \<and> navMesh s1 = None \<and> tileCache s1 = None"
  by (auto simp: Build_params_def Let_def release_navigation_mesh_def
           split: if_splits option.splits)

lemma bind_r_not_False:
  "bind_r m (\<lambda>s5. Some (Inr (True, s5))) \<noteq> Some (Inr (False, s'))"
  by (cases m) (auto simp: bind_r_def split: sum.splits)

lemma Build_created_not_False:
  assumes n: "node s \<noteq> None" and g: "collect_geometries d \<noteq> []"
    and p: "Build_params d s = Inr (s1, p, tp)"
    and c: "create_mesh_and_cache d s1 p tp = (True, s2)"
  shows "Build d s \<noteq> Some (Inr (False, s'))"
  unfolding Build_with_params [OF n g] p
  by (simp add: c bind_r_not_False split: sum.splits)

text \<open>
  C1, amended: without a node \<^verbatim>\<open>Build()\<close> returns false. With a node and no geometry it
  returns true, having only released the previous mesh and cache. With a node and
  geometry, for the \<^verbatim>\<open>params\<close> and \<^verbatim>\<open>tileCacheParams\<close> that \<^verbatim>\<open>Build()\<close> itself computes: when
  \<^verbatim>\<open>dtAllocNavMesh\<close>, \<^verbatim>\<open>navMesh_->init\<close>, \<^verbatim>\<open>dtAllocTileCache\<close> or \<^verbatim>\<open>tileCache_->init\<close> fails (the
  first of them that does), \<^verbatim>\<open>Build()\<close> appends that failure's message to the error log and
  returns false; when all four succeed it does not return false; and when the
  parameters cannot be computed (division by a zero tile size, a shift by more than 31)
  the behaviour is undefined. So it returns false only without a node, or when geometry
  was found and one of the four steps failed on the parameters it was given.
\<close>

theorem C1_Build_result:
  "(node s = None \<longrightarrow> Build d s = Some (Inr (False, release_navigation_mesh s))) \<and>
   (node s \<noteq> None \<and> collect_geometries d = [] \<longrightarrow>
      Build d s = Some (Inr (True, release_navigation_mesh s))) \<and>
   (node s \<noteq> None \<and> collect_geometries d \<noteq> [] \<and> Build_params d s = Inr (s1, p, tp) \<longrightarrow>
      (\<not> dtAllocNavMesh d \<longrightarrow>
         Build d s = Some (Inr (False, add_error ''Could not allocate navigation mesh'' s1)) \<and>
         errorLog (add_error ''Could not allocate navigation mesh'' s1) =
           errorLog s @ [''Could not allocate navigation mesh'']) \<and>
      (dtAllocNavMesh d \<and> \<not> dtNavMesh_init d p \<longrightarrow>
         Build d s = Some (Inr (False, release_navigation_mesh
                                  (add_error ''Could not initialize navigation mesh'' s1))) \<and>
         errorLog (release_navigation_mesh (add_error ''Could not initialize navigation mesh'' s1)) =
           errorLog s @ [''Could not initialize navigation mesh'']) \<and>
      (dtAllocNavMesh d \<and> dtNavMesh_init d p \<and> \<not> dtAllocTileCache d \<longrightarrow>
         Build d s = Some (Inr (False, release_navigation_mesh
                                  (add_error ''Could not allocate tile cache'' s1))) \<and>
         errorLog (release_navigation_mesh (add_error ''Could not allocate tile cache'' s1)) =
           errorLog s @ [''Could not allocate tile cache'']) \<and>
      (dtAllocNavMesh d \<and> dtNavMesh_init d p \<and> dtAllocTileCache d \<and>
       dtTileCache_init d tp = None \<longrightarrow>
         Build d s = Some (Inr (False, release_navigation_mesh
                                  (add_error ''Could not initialize tile cache'' s1))) \<and>
         errorLog (release_navigation_mesh (add_error ''Could not initialize tile cache'' s1)) =
           errorLog s @ [''Could not initialize tile cache'']) \<and>
      (dtAllocNavMesh d \<and> dtNavMesh_init d p \<and> dtAllocTileCache d \<and>
       dtTileCache_init d tp \<noteq> None \<longrightarrow>
         (\<forall>s'. Build d s \<noteq> Some (Inr (False, s'))))) \<and>
   (node s \<noteq> None \<and> collect_geometries d \<noteq> [] \<and> Build_params d s = Inl f \<longrightarrow>
      Build d s = Some (Inl f)) \<and>
   (\<forall>s'. Build d s = Some (Inr (False, s')) \<longrightarrow>
      node s = None \<or>
      (collect_geometries d \<noteq> [] \<and>
       (\<exists>s1 p tp. Build_params d s = Inr (s1, p, tp) \<and>
          (\<not> dtAllocNavMesh d \<or> \<not> dtNavMesh_init d p \<or> \<not> dtAllocTileCache d \<or>
           dtTileCache_init d tp = None))))"
proof (intro conjI allI impI)
  assume "node s = None"
  then show "Build d s = Some (Inr (False, release_navigation_mesh s))"
    by (simp add: Build_def release_navigation_mesh_def)
next
  assume "node s \<noteq> None \<and> collect_geometries d = []"
  then show "Build d s = Some (Inr (True, release_navigation_mesh s))"
    by (auto simp: Build_def release_navigation_mesh_def)
next
  assume a: "node s \<noteq> None \<and> collect_geometries d \<noteq> [] \<and> Build_params d s = Inr (s1, p, tp)"
    and f: "\<not> dtAllocNavMesh d"
  then have n: "node s \<noteq> None" and g: "collect_geometries d \<noteq> []"
    and bp: "Build_params d s = Inr (s1, p, tp)" by simp_all
  show "Build d s = Some (Inr (False, add_error ''Could not allocate navigation mesh'' s1))"
    unfolding Build_with_params [OF n g] bp using f by (simp add: create_mesh_and_cache_def)
next
  assume a: "node s \<noteq> None \<and> collect_geometries d \<noteq> [] \<and> Build_params d s = Inr (s1, p, tp)"
  then show "errorLog (add_error ''Could not allocate navigation mesh'' s1) =
           errorLog s @ [''Could not allocate navigation mesh'']"
    using Build_params_log [of d s s1 p tp] by (simp add: add_error_def)
next
  assume a: "node s \<noteq> None \<and> collect_geometries d \<noteq> [] \<and> Build_params d s = Inr (s1, p, tp)"
    and f: "dtAllocNavMesh d \<and> \<not> dtNavMesh_init d p"
  then have n: "node s \<noteq> None" and g: "collect_geometries d \<noteq> []"
    and bp: "Build_params d s = Inr (s1, p, tp)" by simp_all
  show "Build d s = Some (Inr (False, release_navigation_mesh
                                  (add_error ''Could not initialize navigation mesh'' s1)))"
    unfolding Build_with_params [OF n g] bp using f by (simp add: create_mesh_and_cache_def)
next
  assume a: "node s \<noteq> None \<and> collect_geometries d \<noteq> [] \<and> Build_params d s = Inr (s1, p, tp)"
  then show "errorLog (release_navigation_mesh (add_error ''Could not initialize navigation mesh'' s1)) =
           errorLog s @ [''Could not initialize navigation mesh'']"
    using Build_params_log [of d s s1 p tp]
    by (simp add: add_error_def release_navigation_mesh_def)
next
  assume a: "node s \<noteq> None \<and> collect_geometries d \<noteq> [] \<and> Build_params d s = Inr (s1, p, tp)"
    and f: "dtAllocNavMesh d \<and> dtNavMesh_init d p \<and> \<not> dtAllocTileCache d"
  then have n: "node s \<noteq> None" and g: "collect_geometries d \<noteq> []"
    and bp: "Build_params d s = Inr (s1, p, tp)" by simp_all
  show "Build d s = Some (Inr (False, release_navigation_mesh
                                  (add_error ''Could not allocate tile cache'' s1)))"
    unfolding Build_with_params [OF n g] bp using f by (simp add: create_mesh_and_cache_def)
next
  assume a: "node s \<noteq> None \<and> collect_geometries d \<noteq> [] \<and> Build_params d s = Inr (s1, p, tp)"
  then show "errorLog (release_navigation_mesh (add_error ''Could not allocate tile cache'' s1)) =
           errorLog s @ [''Could not allocate tile cache'']"
    using Build_params_log [of d s s1 p tp]
    by (simp add: add_error_def release_navigation_mesh_def)
next
  assume a: "node s \<noteq> None \<and> collect_geometries d \<noteq> [] \<and> Build_params d s = Inr (s1, p, tp)"
    and f: "dtAllocNavMesh d \<and> dtNavMesh_init d p \<and> dtAllocTileCache d \<and>
            dtTileCache_init d tp = None"
  then have n: "node s \<noteq> None" and g: "collect_geometries d \<noteq> []"
    and bp: "Build_params d s = Inr (s1, p, tp)" by simp_all
  show "Build d s = Some (Inr (False, release_navigation_mesh
                                  (add_error ''Could not initialize tile cache'' s1)))"
    unfolding Build_with_params [OF n g] bp using f by (simp add: create_mesh_and_cache_def)
next
  assume a: "node s \<noteq> None \<and> collect_geometries d \<noteq> [] \<and> Build_params d s = Inr (s1, p, tp)"
  then show "errorLog (release_navigation_mesh (add_error ''Could not initialize tile cache'' s1)) =
           errorLog s @ [''Could not initialize tile cache'']"
    using Build_params_log [of d s s1 p tp]
    by (simp add: add_error_def release_navigation_mesh_def)
next
  fix s'
  assume a: "node s \<noteq> None \<and> collect_geometries d \<noteq> [] \<and> Build_params d s = Inr (s1, p, tp)"
    and f: "dtAllocNavMesh d \<and> dtNavMesh_init d p \<and> dtAllocTileCache d \<and>
            dtTileCache_init d tp \<noteq> None"
  then have n: "node s \<noteq> None" and g: "collect_geometries d \<noteq> []"
    and bp: "Build_params d s = Inr (s1, p, tp)" by simp_all
  from f obtain s2 where c: "create_mesh_and_cache d s1 p tp = (True, s2)"
    by (auto simp: create_mesh_and_cache_def)
  show "Build d s \<noteq> Some (Inr (False, s'))"
    by (rule Build_created_not_False [OF n g bp c])
next
  assume a: "node s \<noteq> None \<and> collect_geometries d \<noteq> [] \<and> Build_params d s = Inl f"
  then have n: "node s \<noteq> None" and g: "collect_geometries d \<noteq> []"
    and bp: "Build_params d s = Inl f" by simp_all
  show "Build d s = Some (Inl f)"
    unfolding Build_with_params [OF n g] bp by simp
next
  fix s'
  assume r: "Build d s = Some (Inr (False, s'))"
  show "node s = None \<or>
      (collect_geometries d \<noteq> [] \<and>
       (\<exists>s1 p tp. Build_params d s = Inr (s1, p, tp) \<and>
          (\<not> dtAllocNavMesh d \<or> \<not> dtNavMesh_init d p \<or> \<not> dtAllocTileCache d \<or>
           dtTileCache_init d tp = None)))"
  proof (cases "node s = None")
    case True
    then show ?thesis by simp
  next
    case n: False
    have g: "collect_geometries d \<noteq> []"
    proof
      assume "collect_geometries d = []"
      with n have "Build d s = Some (Inr (True, release_navigation_mesh s))"
        by (auto simp: Build_def release_navigation_mesh_def)
      with r show False by simp
    qed
    show ?thesis
    proof (cases "Build_params d s")
      case (Inl f)
      with r show ?thesis unfolding Build_with_params [OF n g] by simp
    next
      case (Inr t)
      then obtain s1 p tp where bp: "Build_params d s = Inr (s1, p, tp)" by (cases t) auto
      obtain b s2 where c: "create_mesh_and_cache d s1 p tp = (b, s2)"
        by (cases "create_mesh_and_cache d s1 p tp")
      have "\<not> b"
      proof
        assume b
        with c have "create_mesh_and_cache d s1 p tp = (True, s2)" by simp
        from Build_created_not_False [OF n g bp this] r show False by blast
      qed
      with c have "create_mesh_and_cache d s1 p tp = (False, s2)" by simp
      from create_False [OF this] g bp n show ?thesis by blast
    qed
  qed
qed

lemma ex_build_params:
  "\<exists>s1 p tp. Build_params ex_detour_fail (ex_mesh None) = Inr (s1, p, tp)"
  by (simp add: Build_params_def release_navigation_mesh_def ex_mesh_def ex_detour_fail_def
        ex_detour_def numTiles_of_0 NextPowerOfTwo_def LogBaseTwo_def shl1_def Let_def)

theorem C1_Build_result_witness:
  "Build ex_detour ((ex_mesh None)\<lparr>node := None\<rparr>) =
     Some (Inr (False, release_navigation_mesh ((ex_mesh None)\<lparr>node := None\<rparr>))) \<and>
   Build ex_detour (ex_mesh None) = Some (Inr (True, release_navigation_mesh (ex_mesh None))) \<and>
   (\<exists>s1 p tp.
      Build_params ex_detour_fail (ex_mesh None) = Inr (s1, p, tp) \<and>
      collect_geometries ex_detour_fail \<noteq> [] \<and>
      dtAllocNavMesh ex_detour_fail \<and> \<not> dtNavMesh_init ex_detour_fail p \<and>
      Build ex_detour_fail (ex_mesh None) =
        Some (Inr (False, release_navigation_mesh
                            (add_error ''Could not initialize navigation mesh'' s1))) \<and>
      errorLog (release_navigation_mesh (add_error ''Could not initialize navigation mesh'' s1)) =
        [''Could not initialize navigation mesh''])"
proof -
  have n0: "node ((ex_mesh None)\<lparr>node := None\<rparr>) = None" by simp
  have n1: "node (ex_mesh None) \<noteq> None \<and> collect_geometries ex_detour = []"
    by (simp add: ex_mesh_def ex_detour_def)
  have n2: "node (ex_mesh None) \<noteq> None" by (simp add: ex_mesh_def)
  have g: "collect_geometries ex_detour_fail \<noteq> []"
    by (simp add: ex_detour_fail_def ex_detour_def)
  from ex_build_params obtain s1 p tp where
    bp: "Build_params ex_detour_fail (ex_mesh None) = Inr (s1, p, tp)" by blast
  have f: "dtAllocNavMesh ex_detour_fail \<and> \<not> dtNavMesh_init ex_detour_fail p"
    by (simp add: ex_detour_fail_def ex_detour_def)
  have e: "errorLog (ex_mesh None) = []" by (simp add: ex_mesh_def)
  from C1_Build_result [of "(ex_mesh None)\<lparr>node := None\<rparr>" ex_detour] n0
  have a: "Build ex_detour ((ex_mesh None)\<lparr>node := None\<rparr>) =
     Some (Inr (False, release_navigation_mesh ((ex_mesh None)\<lparr>node := None\<rparr>)))" by blast
  from C1_Build_result [of "ex_mesh None" ex_detour] n1
  have b: "Build ex_detour (ex_mesh None) = Some (Inr (True, release_navigation_mesh (ex_mesh None)))"
    by blast
  note t = C1_Build_result [of "ex_mesh None" ex_detour_fail s1 p tp,
      THEN conjunct2, THEN conjunct2, THEN conjunct1, rule_format,
      OF conjI [OF n2 conjI [OF g bp]], THEN conjunct2, THEN conjunct1, rule_format, OF f]
  from t e
  have c: "Build ex_detour_fail (ex_mesh None) =
           Some (Inr (False, release_navigation_mesh
                               (add_error ''Could not initialize navigation mesh'' s1))) \<and>
         errorLog (release_navigation_mesh (add_error ''Could not initialize navigation mesh'' s1)) =
           [''Could not initialize navigation mesh'']"
    by simp
  show ?thesis
    apply (intro conjI)
      apply (rule a)
     apply (rule b)
    apply (rule exI [of _ s1], rule exI [of _ p], rule exI [of _ tp])
    using bp g f c apply simp
    done
qed


section \<open>Properties: MeshProcess\<close>

lemma Collect_ignores_bounds:
  "CollectOffMeshConnections components b1 = CollectOffMeshConnections components b2"
  by (simp add: CollectOffMeshConnections_def)

lemma discard_connections_filter:
  "discard_connections cs = filter (\<lambda>c. oc_enabledEffective c \<and> endPoint c \<noteq> None) cs"
  by (induction cs) simp_all

text \<open>
  C5 (claim: the callback queries exactly the connections whose bounds overlap the layer's
  bounds). The layer's bounds are \<open>(0, 0, 0)\<close> to \<open>(10, 0, 10)\<close>; the owner has one
  enabled connection from \<open>(1000, 0, 1000)\<close> to \<open>(2000, 0, 2000)\<close> (floats are bit
  patterns: \<open>0x447A0000\<close> is 1000, \<open>0x44FA0000\<close> is 2000, \<open>0x41200000\<close> is 10).
  \<^verbatim>\<open>CollectOffMeshConnections\<close> returns it, and \<^verbatim>\<open>process\<close> publishes it with its two end points:
  the bounds are never read.
\<close>

theorem C5_connection_outside_bounds:
  "CollectOffMeshConnections [ex_connection]
      \<lparr>bb_min = cp_bmin ex_create_params, bb_max = cp_bmax ex_create_params\<rparr> = [ex_connection] \<and>
   offMeshConCount (fst (snd (process id [ex_connection] ex_process ex_create_params [] []))) = 1 \<and>
   offMeshConVerts (fst (snd (process id [ex_connection] ex_process ex_create_params [] []))) =
     [(0x447A0000, 0, 0x447A0000), (0x44FA0000, 0, 0x44FA0000)]"
  by (simp add: CollectOffMeshConnections_def process_def ex_connection_def ex_create_params_def
        ex_process_def ClearConnectionData_def push_connection_def Let_def)

section \<open>Properties: bytes and headers\<close>

lemma le32_length [simp]: "length (le32 w) = 4"
  by (simp add: le32_def)

lemma rd32_le32 [simp]: "rd32 (le32 w @ rest) = w"
  unfolding rd32_def le32_def
  apply simp
  apply (rule bit_word_eqI)
  apply (auto simp: bit_simps not_less)
  apply (rule ccontr)
  apply (simp add: not_less)
  done

lemma rd32_le32' [simp]: "rd32 (le32 w) = w"
  using rd32_le32 [of w "[]"] by simp



lemma header_image_fields:
  "hdr_magic (header_image x z i l @ c) = DT_TILECACHE_MAGIC"
  "hdr_version (header_image x z i l @ c) = DT_TILECACHE_VERSION"
  "hdr_tx (header_image x z i l @ c) = int32 x"
  "hdr_ty (header_image x z i l @ c) = int32 z"
  "hdr_tlayer (header_image x z i l @ c) = int32 i"
  by (simp_all add: header_image_def hdr_magic_def hdr_version_def hdr_tx_def hdr_ty_def
        hdr_tlayer_def int32_def)

lemma header_image_length: "length (header_image x z i l) = sizeof_dtTileCacheLayerHeader"
  by (cases "l_bmin l"; cases "l_bmax l")
     (simp add: header_image_def sizeof_dtTileCacheLayerHeader_def put32s_def Vector3_words_def
        le16_def)

section \<open>Properties: tiles without geometry\<close>















lemma empty_at_WriteTiles:
  "empty_at x z s \<Longrightarrow>
     \<exists>tc. tileCache s = Some tc \<and> getTilesAt tc x z n = [] \<and> WriteTiles tc ml x z = []"
  by (cases "tileCache s") (auto simp: empty_at_def getTilesAt_def WriteTiles_def)













lemma few_at_empty: "filter (tile_at x z) ts = [] \<Longrightarrow> few_at x z n ts"
  by (simp add: few_at_def)












lemma fresh_ref_Nil: "fresh_ref [] = 1"
  by (simp add: fresh_ref_def)

lemma upto_01: "[0..1::int] = [0, 1]" "[0..0::int] = [0]"
  by code_simp+


lemma ex_tile_at:
  "tile_at x z ex_tile_a = (x = 0 \<and> z = 0)" "tile_at x z ex_tile_b = (x = 1 \<and> z = 0)"
  by (auto simp: tile_at_def ex_tile_a_def ex_tile_b_def header_image_fields int32_def)




section \<open>Properties: partial rebuild\<close>

text \<open>
  C4 (claim: \<^verbatim>\<open>Build(from, to)\<close> leaves the blobs of every tile outside the rectangle
  unchanged). \<^verbatim>\<open>BuildTile\<close> passes the navmesh's handle of the polygon tile at \<open>(x, z)\<close> to
  the tile cache's \<^verbatim>\<open>removeTile\<close>. Here the cache holds a layer of tile \<open>(0, 0)\<close> under the
  handle 1 and a layer of tile \<open>(1, 0)\<close> under the handle 2, and the navmesh's polygon tile
  at \<open>(0, 0)\<close> has the handle 2. Rebuilding the rectangle from \<open>(0, 0)\<close> to \<open>(0, 0)\<close>
  returns true and leaves no layer at \<open>(1, 0)\<close>.
\<close>

theorem C4_rebuild_removes_outside_tile:
  "map ct_data (filter (tile_at 1 0) (tc_tiles ex_cache2)) = [header_image 1 0 0 ex_layer @ [4, 5, 6]] \<and>
   map_sum id (\<lambda>r. (fst r, map_option (\<lambda>tc. (map ct_data (filter (tile_at 1 0) (tc_tiles tc)),
                                               map ct_data (filter (tile_at 0 0) (tc_tiles tc))))
                              (tileCache (snd r))))
     (Build_tiles_from_to ex_detour_geo ex_collision (0, 0) (0, 0)) =
   Inr (True, Some ([], [header_image 0 0 0 ex_layer @ [1, 2, 3]]))"
  by (simp add: ex_cache2_def ex_tile_at Build_tiles_from_to_def ex_collision_def ex_mesh_def
        build_tiles_def INT_MAX_def grid_coords_def upto_01 rebuild_one_def getTilesAt_def
        remove_existing_def removeTile_def BuildTile_def getTileRefAt_def ex_navmesh_def
        ex_detour_geo_def ex_detour_def TILECACHE_MAXLAYERS_def dtBuildTileCacheLayer_def
        addTile_def header_image_fields int32_def DT_TILECACHE_MAGIC_def DT_TILECACHE_VERSION_def
        ex_params_def fresh_ref_Nil send_event_def set_tiles_def Let_def tile_at_def
        ex_tile_a_def ex_tile_b_def)

end
